theory Spec2Isabelle
  imports Main "HOL-Library.Word"
begin

section \<open>Zetta protocol: data model (Core/inc/zetta\_protocol.h)\<close>

type_synonym uint8_t = "8 word"
type_synonym uint16_t = "16 word"
type_synonym uint32_t = "32 word"

definition START_BYTE :: uint8_t where
  "START_BYTE = 0xAA"

definition STOP_BYTE :: uint8_t where
  "STOP_BYTE = 0xBC"

definition MAX_PAYLOAD_SIZE :: nat where
  "MAX_PAYLOAD_SIZE = 25"

text \<open>\<open>sizeof(ZettaFrame_t)\<close> of the packed struct: start, type, len, 25 payload bytes,
  crc, stop.\<close>

definition MAX_ZETTA_FRAME_SIZE :: nat where
  "MAX_ZETTA_FRAME_SIZE = 1 + 1 + 1 + MAX_PAYLOAD_SIZE + 1 + 1"

text \<open>The wire frame. \<open>payload\<close> is the fixed array of \<open>MAX_PAYLOAD_SIZE\<close> bytes; the
  struct is packed, so \<open>type\<close>, \<open>len\<close> and \<open>payload\<close> are contiguous.\<close>

record ZettaFrame_t =
  start :: uint8_t
  type :: uint8_t
  len :: uint8_t
  payload :: "uint8_t list"
  crc :: uint8_t
  stop :: uint8_t

text \<open>\<open>ZettaPacketType_t\<close> is a packed enum: one byte on the wire.\<close>

definition MSG_ACK :: uint8_t where
  "MSG_ACK = 0"

definition MSG_PUBLISH :: uint8_t where
  "MSG_PUBLISH = 1"

definition MSG_SUBSCRIBE :: uint8_t where
  "MSG_SUBSCRIBE = 2"

text \<open>\<open>ZettaFrameRxState_t\<close> is kept as the enum's integer, so that the \<open>default\<close>
  branch of the parser's switch is a branch of the model.\<close>

type_synonym ZettaFrameRxState_t = "32 word"

definition STATE_RX_WAIT_START :: ZettaFrameRxState_t where
  "STATE_RX_WAIT_START = 0"

definition STATE_RX_GET_TYPE :: ZettaFrameRxState_t where
  "STATE_RX_GET_TYPE = 1"

definition STATE_RX_GET_LEN :: ZettaFrameRxState_t where
  "STATE_RX_GET_LEN = 2"

definition STATE_RX_GET_PAYLOAD :: ZettaFrameRxState_t where
  "STATE_RX_GET_PAYLOAD = 3"

definition STATE_RX_GET_CRC :: ZettaFrameRxState_t where
  "STATE_RX_GET_CRC = 4"

definition STATE_RX_GET_STOP :: ZettaFrameRxState_t where
  "STATE_RX_GET_STOP = 5"

datatype ZettaError_t =
    ZETTA_ERROR
  | ZETTA_OK
  | ZETTA_ERROR_TYPE
  | ZETTA_FRAME_ERROR
  | ZETTA_ERROR_INVALID_START
  | ZETTA_ERROR_PAYLOAD_TOO_LARGE
  | ZETTA_ERROR_CRC_MISMATCH
  | ZETTA_ERROR_INVALID_STOP
  | ZETTA_ERROR_TIMEOUT
  | ZETTA_ERROR_TX_BUSY
  | ZETTA_ERROR_RX_BUSY

text \<open>The enum's integer values, read where the C code tests an error code as a
  condition.\<close>

fun ZettaError_val :: "ZettaError_t \<Rightarrow> nat" where
  "ZettaError_val ZETTA_ERROR = 0"
| "ZettaError_val ZETTA_OK = 1"
| "ZettaError_val ZETTA_ERROR_TYPE = 2"
| "ZettaError_val ZETTA_FRAME_ERROR = 3"
| "ZettaError_val ZETTA_ERROR_INVALID_START = 4"
| "ZettaError_val ZETTA_ERROR_PAYLOAD_TOO_LARGE = 5"
| "ZettaError_val ZETTA_ERROR_CRC_MISMATCH = 6"
| "ZettaError_val ZETTA_ERROR_INVALID_STOP = 7"
| "ZettaError_val ZETTA_ERROR_TIMEOUT = 8"
| "ZettaError_val ZETTA_ERROR_TX_BUSY = 9"
| "ZettaError_val ZETTA_ERROR_RX_BUSY = 10"

datatype ZettaProtocolState_t =
    ZETTA_STATE_TX_BUSY
  | ZETTA_STATE_TX_READY
  | ZETTA_STATE_RX_READY
  | ZETTA_STATE_RX_BUSY

text \<open>The anonymous struct \<open>_internal\<close> of \<open>Zetta_t\<close>.\<close>

record Zetta_internal =
  pstate :: ZettaProtocolState_t
  index :: uint8_t
  frame :: ZettaFrame_t
  last_byte_time :: uint32_t
  error :: ZettaError_t
  rx_frame_state :: ZettaFrameRxState_t
  payload_ready :: uint8_t

text \<open>Function pointers. Each pointer type has the null pointer, the library's own
  function of that signature, and functions of the caller. A caller's error handler is
  given by what it does to \<open>_internal\<close>; the completion callbacks and the transport
  functions are never called through their pointer by the library itself except
  \<open>send\<close>, whose calls are recorded in the trace below, so they are named by a number.
  The injected CRC function is a function of the \<open>size\<close> bytes it is pointed at.\<close>

datatype ZettaTransmit = NULL_ZettaTransmit | Transmit_fn nat

datatype ZettaRecieve = NULL_ZettaRecieve | Recieve_fn nat

datatype ZettaComputeCRC = NULL_ZettaComputeCRC | ComputeCRC_fn "uint8_t list \<Rightarrow> uint32_t"

datatype ZettaReceiveCpltClbk =
  NULL_ZettaReceiveCpltClbk | zetta_recieve_cplt_clb_fn | ReceiveCpltClbk_fn nat

datatype ZettaTransmitCpltClbk =
  NULL_ZettaTransmitCpltClbk | zetta_transmit_cplt_clb_fn | TransmitCpltClbk_fn nat

datatype HandleError =
    NULL_HandleError
  | zetta_error_manager_fn
  | HandleError_fn "Zetta_internal \<Rightarrow> ZettaError_t \<Rightarrow> Zetta_internal"

record ZettaInterface_t =
  send :: ZettaTransmit
  receive :: ZettaRecieve
  computeCRC :: ZettaComputeCRC
  rxCpltClbk :: ZettaReceiveCpltClbk
  txCpltClbk :: ZettaTransmitCpltClbk
  OnError :: HandleError

record Zetta_t =
  interface :: ZettaInterface_t
  internal :: Zetta_internal

text \<open>The file-scope variables of zetta\_protocol.c (\<open>tx_buf\<close>, \<open>buf_tx_size\<close>,
  \<open>dbg_crc_val\<close>), shared by all instances, and the trace of what the library does to
  its environment: every call of a transport send function with the bytes it was
  handed, every call of an error hook with its error code, and the lines printed.\<close>

record World =
  tx_buf :: "uint8_t list"
  buf_tx_size :: uint16_t
  dbg_crc_val :: uint32_t
  sent :: "(ZettaTransmit \<times> uint8_t list) list"
  raised :: "ZettaError_t list"
  printed :: "string list"

text \<open>What C leaves undefined: a call through a null function pointer, and an access
  outside the array or buffer it is made on.\<close>

datatype fault = NullCall | OutOfBounds

section \<open>The operations (Core/src/zetta\_protocol.c)\<close>

definition zero_frame :: ZettaFrame_t where
  "zero_frame = \<lparr>start = 0, type = 0, len = 0,
     payload = replicate MAX_PAYLOAD_SIZE 0, crc = 0, stop = 0\<rparr>"

text \<open>\<open>memset(packet, 0, sizeof(Zetta_t))\<close>: every field zero, every pointer null, every
  enum its first constant.\<close>

definition zero_Zetta :: Zetta_t where
  "zero_Zetta = \<lparr>interface = \<lparr>send = NULL_ZettaTransmit, receive = NULL_ZettaRecieve,
       computeCRC = NULL_ZettaComputeCRC, rxCpltClbk = NULL_ZettaReceiveCpltClbk,
       txCpltClbk = NULL_ZettaTransmitCpltClbk, OnError = NULL_HandleError\<rparr>,
     internal = \<lparr>pstate = ZETTA_STATE_TX_BUSY, index = 0, frame = zero_frame,
       last_byte_time = 0, error = ZETTA_ERROR, rx_frame_state = STATE_RX_WAIT_START,
       payload_ready = 0\<rparr>\<rparr>"

definition zetta_init :: "Zetta_t \<Rightarrow> ZettaInterface_t \<Rightarrow> Zetta_t" where
  "zetta_init packet iface =
    (let p0 = zero_Zetta;
         p1 = p0\<lparr>internal := (internal p0)\<lparr>pstate := ZETTA_STATE_RX_READY\<rparr>\<rparr>;
         p2 = p1\<lparr>interface := iface\<rparr>;
         p3 = p2\<lparr>internal := (internal p2)\<lparr>payload_ready := 0\<rparr>\<rparr>;
         p4 = p3\<lparr>internal := (internal p3)\<lparr>error := ZETTA_OK\<rparr>\<rparr>;
         p5 = p4\<lparr>interface := (interface p4)\<lparr>rxCpltClbk := zetta_recieve_cplt_clb_fn\<rparr>\<rparr>;
         p6 = p5\<lparr>interface := (interface p5)\<lparr>txCpltClbk := zetta_transmit_cplt_clb_fn\<rparr>\<rparr>
     in p6\<lparr>interface := (interface p6)\<lparr>OnError := zetta_error_manager_fn\<rparr>\<rparr>)"

text \<open>\<open>zetta_compute_crc\<close>: the injected function is handed \<open>1 + 1 + len\<close> bytes
  starting at \<open>frame.type\<close>, and its value is also stored in \<open>dbg_crc_val\<close>. With
  \<open>len\<close> within the payload array these bytes are type, len and the first \<open>len\<close>
  payload bytes; a larger \<open>len\<close> runs off the array.\<close>

definition zetta_compute_crc :: "Zetta_t \<Rightarrow> World \<Rightarrow> fault + uint32_t \<times> World" where
  "zetta_compute_crc packet w =
    (let f = frame (internal packet) in
     if unat (len f) > length (payload f) then Inl OutOfBounds
     else case computeCRC (interface packet) of
       NULL_ZettaComputeCRC \<Rightarrow> Inl NullCall
     | ComputeCRC_fn g \<Rightarrow>
         (let crc_val = g (type f # len f # take (unat (len f)) (payload f))
          in Inr (crc_val, w\<lparr>dbg_crc_val := crc_val\<rparr>)))"

definition zetta_error_manager :: "Zetta_t \<Rightarrow> ZettaError_t \<Rightarrow> World \<Rightarrow> Zetta_t \<times> World" where
  "zetta_error_manager packet e w =
    (let packet' = packet\<lparr>internal := (internal packet)\<lparr>rx_frame_state := STATE_RX_WAIT_START\<rparr>\<rparr>
     in case e of
          ZETTA_ERROR \<Rightarrow> (packet', w\<lparr>printed := printed w @ [''Zetta error'']\<rparr>)
        | _ \<Rightarrow> (packet', w))"

definition zetta_recieve_cplt_clb :: "Zetta_t \<Rightarrow> Zetta_t" where
  "zetta_recieve_cplt_clb packet =
     packet\<lparr>internal := (internal packet)\<lparr>pstate := ZETTA_STATE_RX_READY\<rparr>\<rparr>"

definition zetta_transmit_cplt_clb :: "Zetta_t \<Rightarrow> Zetta_t" where
  "zetta_transmit_cplt_clb packet =
     packet\<lparr>internal := (internal packet)\<lparr>pstate := ZETTA_STATE_TX_READY\<rparr>\<rparr>"

text \<open>\<open>packet->interface.OnError(packet, e)\<close>: the call through the installed pointer,
  recorded in the trace.\<close>

definition call_OnError :: "Zetta_t \<Rightarrow> ZettaError_t \<Rightarrow> World \<Rightarrow> fault + Zetta_t \<times> World" where
  "call_OnError packet e w =
    (case OnError (interface packet) of
       NULL_HandleError \<Rightarrow> Inl NullCall
     | zetta_error_manager_fn \<Rightarrow>
         Inr (zetta_error_manager packet e (w\<lparr>raised := raised w @ [e]\<rparr>))
     | HandleError_fn h \<Rightarrow>
         Inr (packet\<lparr>internal := h (internal packet) e\<rparr>, w\<lparr>raised := raised w @ [e]\<rparr>))"

text \<open>\<open>memcpy(dst + off, src, n)\<close> on byte arrays: out of range on either side is
  undefined in C.\<close>

definition memcpy :: "uint8_t list \<Rightarrow> nat \<Rightarrow> uint8_t list \<Rightarrow> nat \<Rightarrow> fault + uint8_t list" where
  "memcpy dst off src n =
    (if n \<le> length src \<and> off + n \<le> length dst
     then Inr (take off dst @ take n src @ drop (off + n) dst)
     else Inl OutOfBounds)"

text \<open>The busy-wait loops at the head of \<open>zetta_send\<close> and \<open>zetta_ParseByte\<close>. Their
  bodies are empty, so within one call nothing changes the field they test.\<close>

partial_function (option) wait_while_TX_BUSY :: "Zetta_t \<Rightarrow> unit option" where
  "wait_while_TX_BUSY packet =
    (if pstate (internal packet) = ZETTA_STATE_TX_BUSY then wait_while_TX_BUSY packet
     else Some ())"

partial_function (option) wait_while_RX_BUSY :: "Zetta_t \<Rightarrow> unit option" where
  "wait_while_RX_BUSY packet =
    (if pstate (internal packet) = ZETTA_STATE_RX_BUSY then wait_while_RX_BUSY packet
     else Some ())"

text \<open>The body of \<open>zetta_send\<close> after the busy-wait.\<close>

definition zetta_send_body ::
  "Zetta_t \<Rightarrow> uint8_t \<Rightarrow> uint8_t list \<Rightarrow> uint8_t \<Rightarrow> World \<Rightarrow> fault + ZettaError_t \<times> Zetta_t \<times> World" where
  "zetta_send_body packet ty pData ln w =
    (if unat ln > MAX_PAYLOAD_SIZE then
       (case call_OnError packet ZETTA_ERROR_PAYLOAD_TOO_LARGE w of
          Inl flt \<Rightarrow> Inl flt
        | Inr (packet', w') \<Rightarrow> Inr (ZETTA_ERROR_PAYLOAD_TOO_LARGE, packet', w'))
     else
       (let w1 = w\<lparr>buf_tx_size := 0\<rparr>;
            w2 = w1\<lparr>tx_buf := replicate 30 0\<rparr>;
            p1 = packet\<lparr>internal := (internal packet)\<lparr>pstate := ZETTA_STATE_TX_BUSY\<rparr>\<rparr>;
            w3 = w2\<lparr>tx_buf := (tx_buf w2)[unat (buf_tx_size w2) := START_BYTE],
                    buf_tx_size := buf_tx_size w2 + 1\<rparr>;
            w4 = w3\<lparr>tx_buf := (tx_buf w3)[unat (buf_tx_size w3) := ty],
                    buf_tx_size := buf_tx_size w3 + 1\<rparr>;
            w5 = w4\<lparr>tx_buf := (tx_buf w4)[unat (buf_tx_size w4) := ln],
                    buf_tx_size := buf_tx_size w4 + 1\<rparr>
        in case memcpy (tx_buf w5) (unat (buf_tx_size w5)) pData (unat ln) of
             Inl flt \<Rightarrow> Inl flt
           | Inr buf \<Rightarrow>
        (let w6 = w5\<lparr>tx_buf := buf, buf_tx_size := buf_tx_size w5 + ucast ln\<rparr>;
             p2 = p1\<lparr>internal := (internal p1)\<lparr>frame := (frame (internal p1))\<lparr>type := ty\<rparr>\<rparr>\<rparr>;
             p3 = p2\<lparr>internal := (internal p2)\<lparr>frame := (frame (internal p2))\<lparr>len := ln\<rparr>\<rparr>\<rparr>
         in case memcpy (payload (frame (internal p3))) 0 pData (unat ln) of
              Inl flt \<Rightarrow> Inl flt
            | Inr pl \<Rightarrow>
        (let p4 = p3\<lparr>internal := (internal p3)\<lparr>frame := (frame (internal p3))\<lparr>payload := pl\<rparr>\<rparr>\<rparr>
         in case zetta_compute_crc p4 w6 of
              Inl flt \<Rightarrow> Inl flt
            | Inr (crc_val, w7) \<Rightarrow>
        (let p5 = p4\<lparr>internal := (internal p4)\<lparr>frame := (frame (internal p4))\<lparr>crc := ucast crc_val\<rparr>\<rparr>\<rparr>;
             w8 = w7\<lparr>tx_buf := (tx_buf w7)[unat (buf_tx_size w7) := crc (frame (internal p5))],
                     buf_tx_size := buf_tx_size w7 + 1\<rparr>;
             w9 = w8\<lparr>tx_buf := (tx_buf w8)[unat (buf_tx_size w8) := STOP_BYTE],
                     buf_tx_size := buf_tx_size w8 + 1\<rparr>
         in case send (interface p5) of
              NULL_ZettaTransmit \<Rightarrow> Inl NullCall
            | Transmit_fn k \<Rightarrow>
                Inr (ZETTA_OK, p5,
                     w9\<lparr>sent := sent w9 @
                       [(Transmit_fn k,
                         take (unat (ucast (buf_tx_size w9) :: uint8_t)) (tx_buf w9))]\<rparr>))))))"

definition zetta_send ::
  "Zetta_t \<Rightarrow> uint8_t \<Rightarrow> uint8_t list \<Rightarrow> uint8_t \<Rightarrow> World
     \<Rightarrow> (fault + ZettaError_t \<times> Zetta_t \<times> World) option" where
  "zetta_send packet ty pData ln w =
     map_option (\<lambda>_. zetta_send_body packet ty pData ln w) (wait_while_TX_BUSY packet)"

text \<open>\<open>zetta_check_type\<close> is a stub that accepts every byte.\<close>

definition zetta_check_type :: "uint8_t \<Rightarrow> ZettaError_t" where
  "zetta_check_type byte = ZETTA_OK"

text \<open>An error branch of the parser's switch: the error code is stored, the hook is
  called, and the \<open>break\<close> leads to the final \<open>return ZETTA_ERROR\<close>.\<close>

definition signal_rx_error ::
  "Zetta_t \<Rightarrow> ZettaError_t \<Rightarrow> World \<Rightarrow> fault + ZettaError_t \<times> Zetta_t \<times> World" where
  "signal_rx_error packet e w =
    (case call_OnError (packet\<lparr>internal := (internal packet)\<lparr>error := e\<rparr>\<rparr>) e w of
       Inl flt \<Rightarrow> Inl flt
     | Inr (packet', w') \<Rightarrow> Inr (ZETTA_ERROR, packet', w'))"

text \<open>The switch of \<open>zetta_ParseByte\<close>, after the busy-wait.\<close>

definition zetta_ParseByte_body ::
  "Zetta_t \<Rightarrow> uint8_t \<Rightarrow> World \<Rightarrow> fault + ZettaError_t \<times> Zetta_t \<times> World" where
  "zetta_ParseByte_body packet byte w =
    (let i = internal packet; st = rx_frame_state i in
     if st = STATE_RX_WAIT_START then
       (if byte = START_BYTE then
          Inr (ZETTA_ERROR,
               packet\<lparr>internal := i\<lparr>rx_frame_state := STATE_RX_GET_TYPE,
                                     frame := (frame i)\<lparr>start := START_BYTE\<rparr>,
                                     index := 0\<rparr>\<rparr>, w)
        else signal_rx_error packet ZETTA_ERROR_INVALID_START w)
     else if st = STATE_RX_GET_TYPE then
       (if ZettaError_val (zetta_check_type byte) \<noteq> 0 then
          Inr (ZETTA_ERROR,
               packet\<lparr>internal := i\<lparr>frame := (frame i)\<lparr>type := byte\<rparr>,
                                     rx_frame_state := STATE_RX_GET_LEN\<rparr>\<rparr>, w)
        else signal_rx_error packet ZETTA_ERROR_TYPE w)
     else if st = STATE_RX_GET_LEN then
       (if unat byte \<le> MAX_PAYLOAD_SIZE then
          Inr (ZETTA_ERROR,
               packet\<lparr>internal := i\<lparr>frame := (frame i)\<lparr>len := byte\<rparr>,
                                     rx_frame_state :=
                                       (if byte = 0 then STATE_RX_GET_CRC
                                        else STATE_RX_GET_PAYLOAD)\<rparr>\<rparr>, w)
        else signal_rx_error packet ZETTA_ERROR_PAYLOAD_TOO_LARGE w)
     else if st = STATE_RX_GET_PAYLOAD then
       (if unat (index i) < length (payload (frame i)) then
          (let i1 = i\<lparr>frame := (frame i)\<lparr>payload := (payload (frame i))[unat (index i) := byte]\<rparr>,
                      index := index i + 1\<rparr>;
               i2 = (if unat (index i1) \<ge> unat (len (frame i1))
                     then i1\<lparr>rx_frame_state := STATE_RX_GET_CRC\<rparr> else i1)
           in Inr (ZETTA_ERROR, packet\<lparr>internal := i2\<rparr>, w))
        else Inl OutOfBounds)
     else if st = STATE_RX_GET_CRC then
       Inr (ZETTA_ERROR,
            packet\<lparr>internal := i\<lparr>frame := (frame i)\<lparr>crc := byte\<rparr>,
                                  rx_frame_state := STATE_RX_GET_STOP\<rparr>\<rparr>, w)
     else if st = STATE_RX_GET_STOP then
       (if byte = STOP_BYTE then
          (let p1 = packet\<lparr>internal := i\<lparr>rx_frame_state := STATE_RX_WAIT_START,
                                           frame := (frame i)\<lparr>stop := STOP_BYTE\<rparr>\<rparr>\<rparr>
           in case zetta_compute_crc p1 w of
                Inl flt \<Rightarrow> Inl flt
              | Inr (crc_val, w1) \<Rightarrow>
                  if crc_val = ucast (crc (frame (internal p1))) then
                    Inr (ZETTA_OK,
                         p1\<lparr>internal := (internal p1)\<lparr>payload_ready := 1,
                              rx_frame_state := STATE_RX_WAIT_START\<rparr>\<rparr>, w1)
                  else signal_rx_error p1 ZETTA_ERROR_CRC_MISMATCH w1)
        else signal_rx_error packet ZETTA_ERROR_INVALID_STOP w)
     else signal_rx_error packet ZETTA_FRAME_ERROR w)"

definition zetta_ParseByte ::
  "Zetta_t \<Rightarrow> uint8_t \<Rightarrow> World \<Rightarrow> (fault + ZettaError_t \<times> Zetta_t \<times> World) option" where
  "zetta_ParseByte packet byte w =
     map_option (\<lambda>_. zetta_ParseByte_body packet byte w) (wait_while_RX_BUSY packet)"

text \<open>\<open>Zetta_GetPayload\<close> returns the destination buffer after the call;
  \<open>Zetta_GetType\<close> the type byte.\<close>

definition Zetta_GetPayload :: "Zetta_t \<Rightarrow> uint8_t list \<Rightarrow> fault + uint8_t list" where
  "Zetta_GetPayload hzetta pDest =
    (if payload_ready (internal hzetta) \<noteq> 0
     then memcpy pDest 0 (payload (frame (internal hzetta)))
            (unat (len (frame (internal hzetta))))
     else Inr pDest)"

definition Zetta_GetType :: "Zetta_t \<Rightarrow> uint8_t" where
  "Zetta_GetType hzetta =
    (if payload_ready (internal hzetta) \<noteq> 0 then type (frame (internal hzetta))
     else MSG_ACK)"

section \<open>Feeding a byte sequence, reachable instances\<close>

text \<open>The caller's receive loop: every byte is handed to \<open>zetta_ParseByte\<close> in order
  and the return codes are collected. A call that does not return, or a fault, ends the
  run.\<close>

fun feed :: "Zetta_t \<Rightarrow> World \<Rightarrow> uint8_t list
    \<Rightarrow> (fault + ZettaError_t list \<times> Zetta_t \<times> World) option" where
  "feed packet w [] = Some (Inr ([], packet, w))"
| "feed packet w (b # bs) =
    (case zetta_ParseByte packet b w of
       None \<Rightarrow> None
     | Some (Inl flt) \<Rightarrow> Some (Inl flt)
     | Some (Inr (r, packet', w')) \<Rightarrow>
         (case feed packet' w' bs of
            None \<Rightarrow> None
          | Some (Inl flt) \<Rightarrow> Some (Inl flt)
          | Some (Inr (rs, packet'', w'')) \<Rightarrow> Some (Inr (r # rs, packet'', w''))))"

text \<open>The instance after the frame with type \<open>ty\<close>, payload \<open>pl\<close> and crc byte \<open>c\<close> has
  been received and accepted by an instance \<open>p\<close> that was waiting for a start byte.\<close>

definition received :: "Zetta_t \<Rightarrow> uint8_t \<Rightarrow> uint8_t list \<Rightarrow> uint8_t \<Rightarrow> Zetta_t" where
  "received p ty pl c =
     p\<lparr>internal := (internal p)\<lparr>
        frame := \<lparr>start = START_BYTE, type = ty, len = of_nat (length pl),
                  payload = pl @ drop (length pl) (payload (frame (internal p))),
                  crc = c, stop = STOP_BYTE\<rparr>,
        index := of_nat (length pl),
        rx_frame_state := STATE_RX_WAIT_START,
        payload_ready := 1\<rparr>\<rparr>"

text \<open>The same receiver after all bytes of the frame but the stop byte.\<close>

definition awaiting_stop :: "Zetta_t \<Rightarrow> uint8_t \<Rightarrow> uint8_t list \<Rightarrow> uint8_t \<Rightarrow> Zetta_t" where
  "awaiting_stop p ty pl c =
     p\<lparr>internal := (internal p)\<lparr>
        frame := (frame (internal p))\<lparr>start := START_BYTE, type := ty,
                  len := of_nat (length pl),
                  payload := pl @ drop (length pl) (payload (frame (internal p))),
                  crc := c\<rparr>,
        index := of_nat (length pl),
        rx_frame_state := STATE_RX_GET_STOP\<rparr>\<rparr>"

text \<open>The instances that an initialised instance can become through calls of the
  library that return: sends, byte feeds and the two completion callbacks, in any
  order and with any arguments.\<close>

inductive reachable :: "Zetta_t \<Rightarrow> bool" where
  init: "reachable (zetta_init packet iface)"
| sending: "reachable p \<Longrightarrow> zetta_send p ty pData ln w = Some (Inr (r, p', w'))
    \<Longrightarrow> reachable p'"
| parsing: "reachable p \<Longrightarrow> zetta_ParseByte p byte w = Some (Inr (r, p', w'))
    \<Longrightarrow> reachable p'"
| rx_complete: "reachable p \<Longrightarrow> reachable (zetta_recieve_cplt_clb p)"
| tx_complete: "reachable p \<Longrightarrow> reachable (zetta_transmit_cplt_clb p)"

text \<open>The instances that an initialised instance can become through calls that
  return, none of which is a byte feed returning \<open>ZETTA_OK\<close>: no frame has been
  completed yet.\<close>

inductive no_frame_completed :: "Zetta_t \<Rightarrow> bool" where
  init: "no_frame_completed (zetta_init packet iface)"
| sending: "no_frame_completed p \<Longrightarrow> zetta_send p ty pData ln w = Some (Inr (r, p', w'))
    \<Longrightarrow> no_frame_completed p'"
| parsing: "no_frame_completed p \<Longrightarrow> zetta_ParseByte p byte w = Some (Inr (r, p', w'))
    \<Longrightarrow> r \<noteq> ZETTA_OK \<Longrightarrow> no_frame_completed p'"
| rx_complete: "no_frame_completed p \<Longrightarrow> no_frame_completed (zetta_recieve_cplt_clb p)"
| tx_complete: "no_frame_completed p \<Longrightarrow> no_frame_completed (zetta_transmit_cplt_clb p)"

text \<open>What holds of every reachable instance.\<close>

definition instance_inv :: "Zetta_t \<Rightarrow> bool" where
  "instance_inv p \<longleftrightarrow>
     OnError (interface p) = zetta_error_manager_fn \<and>
     pstate (internal p) \<noteq> ZETTA_STATE_RX_BUSY \<and>
     length (payload (frame (internal p))) = MAX_PAYLOAD_SIZE \<and>
     unat (len (frame (internal p))) \<le> MAX_PAYLOAD_SIZE \<and>
     (rx_frame_state (internal p) = STATE_RX_GET_TYPE \<or>
      rx_frame_state (internal p) = STATE_RX_GET_LEN \<longrightarrow> index (internal p) = 0) \<and>
     (rx_frame_state (internal p) = STATE_RX_GET_PAYLOAD \<longrightarrow>
        unat (index (internal p)) < MAX_PAYLOAD_SIZE)"

text \<open>The bytes of a frame on the wire, and the instance after a successful
  \<open>zetta_send\<close> of it.\<close>

definition sent_frame :: "Zetta_t \<Rightarrow> uint8_t \<Rightarrow> uint8_t list \<Rightarrow> uint8_t \<Rightarrow> Zetta_t" where
  "sent_frame p ty pl c =
     p\<lparr>internal := (internal p)\<lparr>pstate := ZETTA_STATE_TX_BUSY,
        frame := (frame (internal p))\<lparr>type := ty, len := of_nat (length pl),
                  payload := pl @ drop (length pl) (payload (frame (internal p))),
                  crc := c\<rparr>\<rparr>\<rparr>"

definition wire_frame :: "uint8_t \<Rightarrow> uint8_t list \<Rightarrow> uint8_t \<Rightarrow> uint8_t list" where
  "wire_frame ty pl c = START_BYTE # ty # of_nat (length pl) # pl @ [c, STOP_BYTE]"


section \<open>Concrete instances and environments\<close>

text \<open>Two injected CRC functions: the sum of the bytes, which fits one byte on short
  frames, and the same sum started at 0x12345600, a value of more than one byte.\<close>

definition crc_sum :: "uint8_t list \<Rightarrow> uint32_t" where
  "crc_sum bs = sum_list (map ucast bs)"

definition crc_wide :: "uint8_t list \<Rightarrow> uint32_t" where
  "crc_wide bs = 0x12345600 + sum_list (map ucast bs)"

definition user_on_error :: "Zetta_internal \<Rightarrow> ZettaError_t \<Rightarrow> Zetta_internal" where
  "user_on_error i e = i"

definition ex_iface_sum :: ZettaInterface_t where
  "ex_iface_sum = \<lparr>send = Transmit_fn 0, receive = Recieve_fn 0,
     computeCRC = ComputeCRC_fn crc_sum, rxCpltClbk = NULL_ZettaReceiveCpltClbk,
     txCpltClbk = NULL_ZettaTransmitCpltClbk, OnError = NULL_HandleError\<rparr>"

definition ex_iface_wide :: ZettaInterface_t where
  "ex_iface_wide = \<lparr>send = Transmit_fn 0, receive = Recieve_fn 0,
     computeCRC = ComputeCRC_fn crc_wide, rxCpltClbk = NULL_ZettaReceiveCpltClbk,
     txCpltClbk = NULL_ZettaTransmitCpltClbk, OnError = NULL_HandleError\<rparr>"

definition ex_iface_user :: ZettaInterface_t where
  "ex_iface_user = \<lparr>send = Transmit_fn 0, receive = Recieve_fn 0,
     computeCRC = ComputeCRC_fn crc_sum, rxCpltClbk = ReceiveCpltClbk_fn 0,
     txCpltClbk = TransmitCpltClbk_fn 0, OnError = HandleError_fn user_on_error\<rparr>"

definition ex_world :: World where
  "ex_world = \<lparr>tx_buf = replicate 30 0, buf_tx_size = 0, dbg_crc_val = 0, sent = [],
     raised = [], printed = []\<rparr>"

text \<open>A freshly initialised instance for each interface.\<close>

definition ex_sum0 :: Zetta_t where
  "ex_sum0 = zetta_init zero_Zetta ex_iface_sum"

definition ex_wide0 :: Zetta_t where
  "ex_wide0 = zetta_init zero_Zetta ex_iface_wide"

text \<open>An instance whose protocol gate reads \<open>ZETTA_STATE_RX_BUSY\<close>.\<close>

definition ex_rx_busy :: Zetta_t where
  "ex_rx_busy = ex_sum0\<lparr>internal := (internal ex_sum0)\<lparr>pstate := ZETTA_STATE_RX_BUSY\<rparr>\<rparr>"

text \<open>The initialised instance \<open>ex_sum0\<close> after sending type 1 with payload 1, 2, and
  the environment after that call.\<close>

definition ex_tx1 :: Zetta_t where
  "ex_tx1 = ex_sum0\<lparr>internal :=
     \<lparr>pstate = ZETTA_STATE_TX_BUSY, index = 0,
      frame = \<lparr>start = 0, type = 1, len = 2,
                payload = [1, 2] @ replicate 23 0, crc = 6, stop = 0\<rparr>,
      last_byte_time = 0, error = ZETTA_OK, rx_frame_state = STATE_RX_WAIT_START,
      payload_ready = 0\<rparr>\<rparr>"

definition ex_world1 :: World where
  "ex_world1 = \<lparr>tx_buf = [0xAA, 1, 2, 1, 2, 6, 0xBC] @ replicate 23 0, buf_tx_size = 7,
     dbg_crc_val = 6, sent = [(Transmit_fn 0, [0xAA, 1, 2, 1, 2, 6, 0xBC])],
     raised = [], printed = []\<rparr>"

text \<open>The initialised instance after the bytes AA 01: waiting for the length byte.\<close>

definition ex_get_len :: Zetta_t where
  "ex_get_len = ex_sum0\<lparr>internal := (internal ex_sum0)\<lparr>
     rx_frame_state := STATE_RX_GET_LEN,
     frame := (frame (internal ex_sum0))\<lparr>start := START_BYTE, type := 1\<rparr>\<rparr>\<rparr>"

text \<open>The receiver \<open>ex_sum0\<close> after the frame AA 01 01 05 07 BC (accepted), and after
  the further frame AA 02 01 09 00 BC (rejected: its checksum is 12, not 0).\<close>

definition ex_rx1 :: Zetta_t where
  "ex_rx1 = ex_sum0\<lparr>internal :=
     \<lparr>pstate = ZETTA_STATE_RX_READY, index = 1,
      frame = \<lparr>start = 0xAA, type = 1, len = 1, payload = 5 # replicate 24 0,
                crc = 7, stop = 0xBC\<rparr>,
      last_byte_time = 0, error = ZETTA_OK, rx_frame_state = STATE_RX_WAIT_START,
      payload_ready = 1\<rparr>\<rparr>"

definition ex_rx2 :: Zetta_t where
  "ex_rx2 = ex_sum0\<lparr>internal :=
     \<lparr>pstate = ZETTA_STATE_RX_READY, index = 1,
      frame = \<lparr>start = 0xAA, type = 2, len = 1, payload = 9 # replicate 24 0,
                crc = 0, stop = 0xBC\<rparr>,
      last_byte_time = 0, error = ZETTA_ERROR_CRC_MISMATCH,
      rx_frame_state = STATE_RX_WAIT_START, payload_ready = 1\<rparr>\<rparr>"

text \<open>With the 32-bit CRC: the sender after sending type 1 with payload 1, 2, the
  environment after that call, and the receiver after the first six bytes of that frame
  and after the last one.\<close>

definition ex_wide_tx1 :: Zetta_t where
  "ex_wide_tx1 = ex_wide0\<lparr>internal :=
     \<lparr>pstate = ZETTA_STATE_TX_BUSY, index = 0,
      frame = \<lparr>start = 0, type = 1, len = 2,
                payload = [1, 2] @ replicate 23 0, crc = 0x06, stop = 0\<rparr>,
      last_byte_time = 0, error = ZETTA_OK, rx_frame_state = STATE_RX_WAIT_START,
      payload_ready = 0\<rparr>\<rparr>"

definition ex_wide_world1 :: World where
  "ex_wide_world1 = \<lparr>tx_buf = [0xAA, 1, 2, 1, 2, 0x06, 0xBC] @ replicate 23 0,
     buf_tx_size = 7, dbg_crc_val = 0x12345606,
     sent = [(Transmit_fn 0, [0xAA, 1, 2, 1, 2, 0x06, 0xBC])], raised = [], printed = []\<rparr>"

definition ex_wide_stop :: Zetta_t where
  "ex_wide_stop = ex_wide0\<lparr>internal :=
     \<lparr>pstate = ZETTA_STATE_RX_READY, index = 2,
      frame = \<lparr>start = 0xAA, type = 1, len = 2,
                payload = [1, 2] @ replicate 23 0, crc = 0x06, stop = 0\<rparr>,
      last_byte_time = 0, error = ZETTA_OK, rx_frame_state = STATE_RX_GET_STOP,
      payload_ready = 0\<rparr>\<rparr>"

definition ex_wide_end :: Zetta_t where
  "ex_wide_end = ex_wide0\<lparr>internal :=
     \<lparr>pstate = ZETTA_STATE_RX_READY, index = 2,
      frame = \<lparr>start = 0xAA, type = 1, len = 2,
                payload = [1, 2] @ replicate 23 0, crc = 0x06, stop = 0xBC\<rparr>,
      last_byte_time = 0, error = ZETTA_ERROR_CRC_MISMATCH,
      rx_frame_state = STATE_RX_WAIT_START, payload_ready = 0\<rparr>\<rparr>"

text \<open>The initialised instance after one stray byte.\<close>

definition ex_after_stray :: Zetta_t where
  "ex_after_stray = ex_sum0\<lparr>internal := (internal ex_sum0)\<lparr>error := ZETTA_ERROR_INVALID_START\<rparr>\<rparr>"

text \<open>The receiver \<open>ex_sum0\<close> after the bytes AA 02 01 09 00 (waiting for the stop
  byte of a frame whose checksum is 12, not 0), and after the stop byte BC (rejected).\<close>

definition ex_sum_stop :: Zetta_t where
  "ex_sum_stop = ex_sum0\<lparr>internal :=
     \<lparr>pstate = ZETTA_STATE_RX_READY, index = 1,
      frame = \<lparr>start = 0xAA, type = 2, len = 1, payload = 9 # replicate 24 0,
                crc = 0, stop = 0\<rparr>,
      last_byte_time = 0, error = ZETTA_OK, rx_frame_state = STATE_RX_GET_STOP,
      payload_ready = 0\<rparr>\<rparr>"

definition ex_sum_rejected :: Zetta_t where
  "ex_sum_rejected = ex_sum0\<lparr>internal :=
     \<lparr>pstate = ZETTA_STATE_RX_READY, index = 1,
      frame = \<lparr>start = 0xAA, type = 2, len = 1, payload = 9 # replicate 24 0,
                crc = 0, stop = 0xBC\<rparr>,
      last_byte_time = 0, error = ZETTA_ERROR_CRC_MISMATCH,
      rx_frame_state = STATE_RX_WAIT_START, payload_ready = 0\<rparr>\<rparr>"

text \<open>An initialised instance whose receive state is none of the six enum values, and
  a zeroed instance that was never initialised (every pointer null) with the gate
  open.\<close>

definition ex_bad_state :: Zetta_t where
  "ex_bad_state = ex_sum0\<lparr>internal := (internal ex_sum0)\<lparr>rx_frame_state := 9\<rparr>\<rparr>"

definition ex_no_hook :: Zetta_t where
  "ex_no_hook = zero_Zetta\<lparr>internal := (internal zero_Zetta)\<lparr>pstate := ZETTA_STATE_TX_READY\<rparr>\<rparr>"

section \<open>Basic facts\<close>

lemma replicate_numeral: "replicate (numeral k) x = x # replicate (pred_numeral k) x"
  by (simp add: numeral_eq_Suc)

lemma list_update_Cons_numeral: "(x # xs)[numeral k := y] = x # xs[pred_numeral k := y]"
  by (simp add: numeral_eq_Suc)

lemmas eval_list = replicate_numeral list_update_Cons_numeral

lemmas rx_state_defs = STATE_RX_WAIT_START_def STATE_RX_GET_TYPE_def STATE_RX_GET_LEN_def
  STATE_RX_GET_PAYLOAD_def STATE_RX_GET_CRC_def STATE_RX_GET_STOP_def

subsection \<open>The busy-wait loops\<close>

lemma wait_while_RX_BUSY_free:
  "pstate (internal packet) \<noteq> ZETTA_STATE_RX_BUSY \<Longrightarrow> wait_while_RX_BUSY packet = Some ()"
  by (subst wait_while_RX_BUSY.simps) simp

lemma wait_while_RX_BUSY_Some:
  assumes "wait_while_RX_BUSY packet = Some u"
  shows "pstate (internal packet) \<noteq> ZETTA_STATE_RX_BUSY"
  by (rule wait_while_RX_BUSY.raw_induct
        [where P = "\<lambda>p u. pstate (internal p) \<noteq> ZETTA_STATE_RX_BUSY", OF _ assms])
     (auto split: if_splits)

lemma wait_while_RX_BUSY_hangs:
  "pstate (internal packet) = ZETTA_STATE_RX_BUSY \<Longrightarrow> wait_while_RX_BUSY packet = None"
  using wait_while_RX_BUSY_Some [of packet] by (cases "wait_while_RX_BUSY packet") auto

lemma wait_while_TX_BUSY_free:
  "pstate (internal packet) \<noteq> ZETTA_STATE_TX_BUSY \<Longrightarrow> wait_while_TX_BUSY packet = Some ()"
  by (subst wait_while_TX_BUSY.simps) simp

lemma wait_while_TX_BUSY_Some:
  assumes "wait_while_TX_BUSY packet = Some u"
  shows "pstate (internal packet) \<noteq> ZETTA_STATE_TX_BUSY"
  by (rule wait_while_TX_BUSY.raw_induct
        [where P = "\<lambda>p u. pstate (internal p) \<noteq> ZETTA_STATE_TX_BUSY", OF _ assms])
     (auto split: if_splits)

lemma wait_while_TX_BUSY_hangs:
  "pstate (internal packet) = ZETTA_STATE_TX_BUSY \<Longrightarrow> wait_while_TX_BUSY packet = None"
  using wait_while_TX_BUSY_Some [of packet] by (cases "wait_while_TX_BUSY packet") auto

lemma zetta_ParseByte_free:
  "pstate (internal packet) \<noteq> ZETTA_STATE_RX_BUSY \<Longrightarrow>
   zetta_ParseByte packet byte w = Some (zetta_ParseByte_body packet byte w)"
  by (simp add: zetta_ParseByte_def wait_while_RX_BUSY_free)

lemma zetta_ParseByte_hangs:
  "pstate (internal packet) = ZETTA_STATE_RX_BUSY \<Longrightarrow> zetta_ParseByte packet byte w = None"
  by (simp add: zetta_ParseByte_def wait_while_RX_BUSY_hangs)

lemma zetta_send_free:
  "pstate (internal packet) \<noteq> ZETTA_STATE_TX_BUSY \<Longrightarrow>
   zetta_send packet ty pData ln w = Some (zetta_send_body packet ty pData ln w)"
  by (simp add: zetta_send_def wait_while_TX_BUSY_free)

lemma zetta_send_hangs:
  "pstate (internal packet) = ZETTA_STATE_TX_BUSY \<Longrightarrow> zetta_send packet ty pData ln w = None"
  by (simp add: zetta_send_def wait_while_TX_BUSY_hangs)

subsection \<open>Initialisation\<close>

lemma zetta_init_eq:
  "zetta_init packet iface =
    \<lparr>interface = iface\<lparr>rxCpltClbk := zetta_recieve_cplt_clb_fn,
         txCpltClbk := zetta_transmit_cplt_clb_fn, OnError := zetta_error_manager_fn\<rparr>,
     internal = \<lparr>pstate = ZETTA_STATE_RX_READY, index = 0, frame = zero_frame,
       last_byte_time = 0, error = ZETTA_OK, rx_frame_state = STATE_RX_WAIT_START,
       payload_ready = 0\<rparr>\<rparr>"
  by (simp add: zetta_init_def zero_Zetta_def Let_def)

subsection \<open>One step of the receive state machine, per state\<close>

lemma feed_append:
  "feed p w xs = Some (Inr (rs1, p1, w1)) \<Longrightarrow> feed p1 w1 ys = Some (Inr (rs2, p2, w2))
   \<Longrightarrow> feed p w (xs @ ys) = Some (Inr (rs1 @ rs2, p2, w2))"
proof (induction xs arbitrary: p w rs1)
  case Nil
  then show ?case by simp
next
  case (Cons b xs)
  then show ?case
    by (auto split: option.splits sum.splits prod.splits)
qed

lemma feed_step:
  "zetta_ParseByte p b w = Some (Inr (r, p1, w1)) \<Longrightarrow> feed p1 w1 bs = Some (Inr (rs, p2, w2))
   \<Longrightarrow> feed p w (b # bs) = Some (Inr (r # rs, p2, w2))"
  by simp

lemma body_WAIT_START_start:
  "rx_frame_state (internal p) = STATE_RX_WAIT_START \<Longrightarrow>
   zetta_ParseByte_body p START_BYTE w =
     Inr (ZETTA_ERROR,
          p\<lparr>internal := (internal p)\<lparr>rx_frame_state := STATE_RX_GET_TYPE,
               frame := (frame (internal p))\<lparr>start := START_BYTE\<rparr>, index := 0\<rparr>\<rparr>, w)"
  by (simp add: zetta_ParseByte_body_def Let_def)

lemma body_GET_TYPE:
  "rx_frame_state (internal p) = STATE_RX_GET_TYPE \<Longrightarrow>
   zetta_ParseByte_body p b w =
     Inr (ZETTA_ERROR,
          p\<lparr>internal := (internal p)\<lparr>frame := (frame (internal p))\<lparr>type := b\<rparr>,
               rx_frame_state := STATE_RX_GET_LEN\<rparr>\<rparr>, w)"
  by (simp add: zetta_ParseByte_body_def Let_def zetta_check_type_def
      STATE_RX_GET_TYPE_def STATE_RX_WAIT_START_def)

lemma body_GET_LEN_ok:
  "rx_frame_state (internal p) = STATE_RX_GET_LEN \<Longrightarrow> unat b \<le> MAX_PAYLOAD_SIZE \<Longrightarrow>
   zetta_ParseByte_body p b w =
     Inr (ZETTA_ERROR,
          p\<lparr>internal := (internal p)\<lparr>frame := (frame (internal p))\<lparr>len := b\<rparr>,
               rx_frame_state := (if b = 0 then STATE_RX_GET_CRC else STATE_RX_GET_PAYLOAD)\<rparr>\<rparr>, w)"
  by (simp add: zetta_ParseByte_body_def Let_def
      STATE_RX_GET_TYPE_def STATE_RX_WAIT_START_def STATE_RX_GET_LEN_def)

lemma body_GET_PAYLOAD:
  "rx_frame_state (internal p) = STATE_RX_GET_PAYLOAD \<Longrightarrow>
   unat (index (internal p)) < length (payload (frame (internal p))) \<Longrightarrow>
   zetta_ParseByte_body p b w =
     Inr (ZETTA_ERROR,
          p\<lparr>internal := (internal p)\<lparr>
               frame := (frame (internal p))\<lparr>payload :=
                 (payload (frame (internal p)))[unat (index (internal p)) := b]\<rparr>,
               index := index (internal p) + 1,
               rx_frame_state :=
                 (if unat (index (internal p) + 1) \<ge> unat (len (frame (internal p)))
                  then STATE_RX_GET_CRC else STATE_RX_GET_PAYLOAD)\<rparr>\<rparr>, w)"
  by (simp add: zetta_ParseByte_body_def Let_def
      STATE_RX_GET_TYPE_def STATE_RX_WAIT_START_def STATE_RX_GET_LEN_def STATE_RX_GET_PAYLOAD_def)

lemma body_GET_CRC:
  "rx_frame_state (internal p) = STATE_RX_GET_CRC \<Longrightarrow>
   zetta_ParseByte_body p b w =
     Inr (ZETTA_ERROR,
          p\<lparr>internal := (internal p)\<lparr>frame := (frame (internal p))\<lparr>crc := b\<rparr>,
               rx_frame_state := STATE_RX_GET_STOP\<rparr>\<rparr>, w)"
  by (simp add: zetta_ParseByte_body_def Let_def STATE_RX_GET_CRC_def
      STATE_RX_GET_TYPE_def STATE_RX_WAIT_START_def STATE_RX_GET_LEN_def STATE_RX_GET_PAYLOAD_def)

lemma body_GET_STOP_match:
  "rx_frame_state (internal p) = STATE_RX_GET_STOP \<Longrightarrow>
   unat (len (frame (internal p))) \<le> length (payload (frame (internal p))) \<Longrightarrow>
   computeCRC (interface p) = ComputeCRC_fn g \<Longrightarrow>
   g (type (frame (internal p)) # len (frame (internal p)) #
        take (unat (len (frame (internal p)))) (payload (frame (internal p))))
     = ucast (crc (frame (internal p))) \<Longrightarrow>
   zetta_ParseByte_body p STOP_BYTE w =
     Inr (ZETTA_OK,
          p\<lparr>internal := (internal p)\<lparr>frame := (frame (internal p))\<lparr>stop := STOP_BYTE\<rparr>,
               payload_ready := 1, rx_frame_state := STATE_RX_WAIT_START\<rparr>\<rparr>,
          w\<lparr>dbg_crc_val := ucast (crc (frame (internal p)))\<rparr>)"
  by (simp add: zetta_ParseByte_body_def Let_def STATE_RX_GET_CRC_def STATE_RX_GET_STOP_def
      STATE_RX_GET_TYPE_def STATE_RX_WAIT_START_def STATE_RX_GET_LEN_def STATE_RX_GET_PAYLOAD_def
      zetta_compute_crc_def)

subsection \<open>Receiving a whole frame\<close>

lemma feed_payload:
  "rx_frame_state (internal p) = STATE_RX_GET_PAYLOAD \<Longrightarrow>
   pstate (internal p) \<noteq> ZETTA_STATE_RX_BUSY \<Longrightarrow>
   bs \<noteq> [] \<Longrightarrow>
   unat (index (internal p)) + length bs = unat (len (frame (internal p))) \<Longrightarrow>
   unat (len (frame (internal p))) \<le> length (payload (frame (internal p))) \<Longrightarrow>
   feed p w bs =
     Some (Inr (replicate (length bs) ZETTA_ERROR,
       p\<lparr>internal := (internal p)\<lparr>
            frame := (frame (internal p))\<lparr>payload :=
              take (unat (index (internal p))) (payload (frame (internal p))) @ bs @
              drop (unat (len (frame (internal p)))) (payload (frame (internal p)))\<rparr>,
            index := len (frame (internal p)),
            rx_frame_state := STATE_RX_GET_CRC\<rparr>\<rparr>, w))"
proof (induction bs arbitrary: p)
  case Nil
  then show ?case by simp
next
  case (Cons b bs)
  let ?i = "internal p"
  let ?n = "unat (index ?i)"
  let ?pl = "payload (frame ?i)"
  have idx: "?n < length ?pl" using Cons.prems by simp
  have "unat (len (frame ?i)) < 2 ^ 8"
    using unsigned_less [of "len (frame ?i)", where ?'a = nat] by simp
  then have n255: "?n < 255"
    using Cons.prems(4) by simp
  have suc: "unat (index ?i + 1) = Suc ?n"
    using n255 by (simp add: unat_word_ariths)
  have step: "zetta_ParseByte p b w = Some (zetta_ParseByte_body p b w)"
    using Cons.prems(2) by (rule zetta_ParseByte_free)
  note body = body_GET_PAYLOAD [OF Cons.prems(1) idx, of b w]
  show ?case
  proof (cases "bs = []")
    case True
    then have last: "Suc ?n = unat (len (frame ?i))" using Cons.prems(4) by simp
    have "index ?i + 1 = len (frame ?i)"
      using suc last by (simp add: word_unat_eq_iff)
    moreover have "?pl[?n := b] = take ?n ?pl @ [b] @ drop (unat (len (frame ?i))) ?pl"
      using idx last by (simp add: upd_conv_take_nth_drop)
    ultimately show ?thesis
      using True step body suc last by simp
  next
    case False
    let ?p1 = "p\<lparr>internal := ?i\<lparr>frame := (frame ?i)\<lparr>payload := ?pl[?n := b]\<rparr>,
                 index := index ?i + 1, rx_frame_state := STATE_RX_GET_PAYLOAD\<rparr>\<rparr>"
    have more: "Suc ?n < unat (len (frame ?i))"
      using False Cons.prems(4) by (cases bs) auto
    have b1: "zetta_ParseByte p b w = Some (Inr (ZETTA_ERROR, ?p1, w))"
      using step body suc more by simp
    have ih: "feed ?p1 w bs =
      Some (Inr (replicate (length bs) ZETTA_ERROR,
        ?p1\<lparr>internal := (internal ?p1)\<lparr>
            frame := (frame (internal ?p1))\<lparr>payload :=
              take (unat (index (internal ?p1))) (payload (frame (internal ?p1))) @ bs @
              drop (unat (len (frame (internal ?p1)))) (payload (frame (internal ?p1)))\<rparr>,
            index := len (frame (internal ?p1)),
            rx_frame_state := STATE_RX_GET_CRC\<rparr>\<rparr>, w))"
      using Cons.prems False suc by (intro Cons.IH) simp_all
    have pl: "take (Suc ?n) (?pl[?n := b]) @ bs @ drop (unat (len (frame ?i))) (?pl[?n := b])
        = take ?n ?pl @ (b # bs) @ drop (unat (len (frame ?i))) ?pl"
      using idx more by (simp add: take_Suc_conv_app_nth)
    show ?thesis
      using feed_step [OF b1 ih] pl suc by simp
  qed
qed

lemma feed_valid_frame:
  assumes st: "rx_frame_state (internal p) = STATE_RX_WAIT_START"
    and gate: "pstate (internal p) \<noteq> ZETTA_STATE_RX_BUSY"
    and cap: "length (payload (frame (internal p))) = MAX_PAYLOAD_SIZE"
    and crcf: "computeCRC (interface p) = ComputeCRC_fn g"
    and ln: "length pl \<le> MAX_PAYLOAD_SIZE"
    and ok: "g (ty # of_nat (length pl) # pl) = ucast c"
  shows "feed p w (START_BYTE # ty # of_nat (length pl) # pl @ [c, STOP_BYTE]) =
     Some (Inr (replicate (length pl + 4) ZETTA_ERROR @ [ZETTA_OK],
                received p ty pl c, w\<lparr>dbg_crc_val := ucast c\<rparr>))"
proof -
  let ?n = "of_nat (length pl) :: uint8_t"
  have un: "unat ?n = length pl"
    using ln by (simp add: unat_of_nat MAX_PAYLOAD_SIZE_def)
  let ?i = "internal p"
  let ?p1 = "p\<lparr>internal := ?i\<lparr>rx_frame_state := STATE_RX_GET_TYPE,
               frame := (frame ?i)\<lparr>start := START_BYTE\<rparr>, index := 0\<rparr>\<rparr>"
  let ?p2 = "?p1\<lparr>internal := (internal ?p1)\<lparr>frame := (frame (internal ?p1))\<lparr>type := ty\<rparr>,
               rx_frame_state := STATE_RX_GET_LEN\<rparr>\<rparr>"
  let ?p3 = "?p2\<lparr>internal := (internal ?p2)\<lparr>frame := (frame (internal ?p2))\<lparr>len := ?n\<rparr>,
               rx_frame_state := (if ?n = 0 then STATE_RX_GET_CRC else STATE_RX_GET_PAYLOAD)\<rparr>\<rparr>"
  let ?p4 = "?p3\<lparr>internal := (internal ?p3)\<lparr>
               frame := (frame (internal ?p3))\<lparr>payload :=
                 pl @ drop (length pl) (payload (frame ?i))\<rparr>,
               index := ?n, rx_frame_state := STATE_RX_GET_CRC\<rparr>\<rparr>"
  let ?p5 = "?p4\<lparr>internal := (internal ?p4)\<lparr>frame := (frame (internal ?p4))\<lparr>crc := c\<rparr>,
               rx_frame_state := STATE_RX_GET_STOP\<rparr>\<rparr>"
  have s1: "zetta_ParseByte p START_BYTE w = Some (Inr (ZETTA_ERROR, ?p1, w))"
    using gate st by (simp add: zetta_ParseByte_free body_WAIT_START_start)
  have s2: "zetta_ParseByte ?p1 ty w = Some (Inr (ZETTA_ERROR, ?p2, w))"
    using gate by (simp add: zetta_ParseByte_free body_GET_TYPE)
  have s3: "zetta_ParseByte ?p2 ?n w = Some (Inr (ZETTA_ERROR, ?p3, w))"
    using gate ln un by (simp add: zetta_ParseByte_free body_GET_LEN_ok)
  have s4: "feed ?p3 w pl = Some (Inr (replicate (length pl) ZETTA_ERROR, ?p4, w))"
  proof (cases "pl = []")
    case True
    then show ?thesis by simp
  next
    case False
    then have nz: "?n \<noteq> 0" using un by auto
    have "feed ?p3 w pl =
     Some (Inr (replicate (length pl) ZETTA_ERROR,
       ?p3\<lparr>internal := (internal ?p3)\<lparr>
            frame := (frame (internal ?p3))\<lparr>payload :=
              take (unat (index (internal ?p3))) (payload (frame (internal ?p3))) @ pl @
              drop (unat (len (frame (internal ?p3)))) (payload (frame (internal ?p3)))\<rparr>,
            index := len (frame (internal ?p3)),
            rx_frame_state := STATE_RX_GET_CRC\<rparr>\<rparr>, w))"
      using gate False nz un cap ln by (intro feed_payload) simp_all
    then show ?thesis using un nz by simp
  qed
  have s5: "zetta_ParseByte ?p4 c w = Some (Inr (ZETTA_ERROR, ?p5, w))"
    using gate by (simp add: zetta_ParseByte_free body_GET_CRC)
  have s6: "zetta_ParseByte ?p5 STOP_BYTE w =
      Some (Inr (ZETTA_OK, received p ty pl c, w\<lparr>dbg_crc_val := ucast c\<rparr>))"
  proof -
    have "zetta_ParseByte_body ?p5 STOP_BYTE w =
     Inr (ZETTA_OK,
          ?p5\<lparr>internal := (internal ?p5)\<lparr>frame := (frame (internal ?p5))\<lparr>stop := STOP_BYTE\<rparr>,
               payload_ready := 1, rx_frame_state := STATE_RX_WAIT_START\<rparr>\<rparr>,
          w\<lparr>dbg_crc_val := ucast (crc (frame (internal ?p5)))\<rparr>)"
      using crcf ok un cap ln by (intro body_GET_STOP_match [where g = g]) simp_all
    then show ?thesis
      using gate by (simp add: zetta_ParseByte_free received_def)
  qed
  have tail: "feed ?p4 w [c, STOP_BYTE] =
      Some (Inr ([ZETTA_ERROR, ZETTA_OK], received p ty pl c, w\<lparr>dbg_crc_val := ucast c\<rparr>))"
    using s5 s6 by simp
  have body: "feed ?p3 w (pl @ [c, STOP_BYTE]) =
      Some (Inr (replicate (length pl) ZETTA_ERROR @ [ZETTA_ERROR, ZETTA_OK],
                 received p ty pl c, w\<lparr>dbg_crc_val := ucast c\<rparr>))"
    by (rule feed_append [OF s4 tail])
  have "feed p w (START_BYTE # ty # ?n # pl @ [c, STOP_BYTE]) =
      Some (Inr (ZETTA_ERROR # ZETTA_ERROR # ZETTA_ERROR #
                 replicate (length pl) ZETTA_ERROR @ [ZETTA_ERROR, ZETTA_OK],
                 received p ty pl c, w\<lparr>dbg_crc_val := ucast c\<rparr>))"
    by (rule feed_step [OF s1 feed_step [OF s2 feed_step [OF s3 body]]])
  moreover have "ZETTA_ERROR # ZETTA_ERROR # ZETTA_ERROR #
                 replicate (length pl) ZETTA_ERROR @ [ZETTA_ERROR, ZETTA_OK]
      = replicate (length pl + 4) ZETTA_ERROR @ [ZETTA_OK]"
    by (simp add: replicate_append_same numeral_eq_Suc)
  ultimately show ?thesis by simp
qed

lemma feed_frame_prefix:
  assumes st: "rx_frame_state (internal p) = STATE_RX_WAIT_START"
    and gate: "pstate (internal p) \<noteq> ZETTA_STATE_RX_BUSY"
    and cap: "length (payload (frame (internal p))) = MAX_PAYLOAD_SIZE"
    and ln: "length pl \<le> MAX_PAYLOAD_SIZE"
  shows "feed p w (START_BYTE # ty # of_nat (length pl) # pl @ [c]) =
     Some (Inr (replicate (length pl + 4) ZETTA_ERROR, awaiting_stop p ty pl c, w))"
proof -
  let ?n = "of_nat (length pl) :: uint8_t"
  have un: "unat ?n = length pl"
    using ln by (simp add: unat_of_nat MAX_PAYLOAD_SIZE_def)
  let ?i = "internal p"
  let ?p1 = "p\<lparr>internal := ?i\<lparr>rx_frame_state := STATE_RX_GET_TYPE,
               frame := (frame ?i)\<lparr>start := START_BYTE\<rparr>, index := 0\<rparr>\<rparr>"
  let ?p2 = "?p1\<lparr>internal := (internal ?p1)\<lparr>frame := (frame (internal ?p1))\<lparr>type := ty\<rparr>,
               rx_frame_state := STATE_RX_GET_LEN\<rparr>\<rparr>"
  let ?p3 = "?p2\<lparr>internal := (internal ?p2)\<lparr>frame := (frame (internal ?p2))\<lparr>len := ?n\<rparr>,
               rx_frame_state := (if ?n = 0 then STATE_RX_GET_CRC else STATE_RX_GET_PAYLOAD)\<rparr>\<rparr>"
  let ?p4 = "?p3\<lparr>internal := (internal ?p3)\<lparr>
               frame := (frame (internal ?p3))\<lparr>payload :=
                 pl @ drop (length pl) (payload (frame ?i))\<rparr>,
               index := ?n, rx_frame_state := STATE_RX_GET_CRC\<rparr>\<rparr>"
  have s1: "zetta_ParseByte p START_BYTE w = Some (Inr (ZETTA_ERROR, ?p1, w))"
    using gate st by (simp add: zetta_ParseByte_free body_WAIT_START_start)
  have s2: "zetta_ParseByte ?p1 ty w = Some (Inr (ZETTA_ERROR, ?p2, w))"
    using gate by (simp add: zetta_ParseByte_free body_GET_TYPE)
  have s3: "zetta_ParseByte ?p2 ?n w = Some (Inr (ZETTA_ERROR, ?p3, w))"
    using gate ln un by (simp add: zetta_ParseByte_free body_GET_LEN_ok)
  have s4: "feed ?p3 w pl = Some (Inr (replicate (length pl) ZETTA_ERROR, ?p4, w))"
  proof (cases "pl = []")
    case True
    then show ?thesis by simp
  next
    case False
    then have nz: "?n \<noteq> 0" using un by auto
    have "feed ?p3 w pl =
     Some (Inr (replicate (length pl) ZETTA_ERROR,
       ?p3\<lparr>internal := (internal ?p3)\<lparr>
            frame := (frame (internal ?p3))\<lparr>payload :=
              take (unat (index (internal ?p3))) (payload (frame (internal ?p3))) @ pl @
              drop (unat (len (frame (internal ?p3)))) (payload (frame (internal ?p3)))\<rparr>,
            index := len (frame (internal ?p3)),
            rx_frame_state := STATE_RX_GET_CRC\<rparr>\<rparr>, w))"
      using gate False nz un cap ln by (intro feed_payload) simp_all
    then show ?thesis using un nz by simp
  qed
  have s5: "feed ?p4 w [c] = Some (Inr ([ZETTA_ERROR], awaiting_stop p ty pl c, w))"
    using gate by (simp add: zetta_ParseByte_free body_GET_CRC awaiting_stop_def)
  have body: "feed ?p3 w (pl @ [c]) =
      Some (Inr (replicate (length pl) ZETTA_ERROR @ [ZETTA_ERROR],
                 awaiting_stop p ty pl c, w))"
    by (rule feed_append [OF s4 s5])
  have "feed p w (START_BYTE # ty # ?n # pl @ [c]) =
      Some (Inr (ZETTA_ERROR # ZETTA_ERROR # ZETTA_ERROR #
                 replicate (length pl) ZETTA_ERROR @ [ZETTA_ERROR],
                 awaiting_stop p ty pl c, w))"
    by (rule feed_step [OF s1 feed_step [OF s2 feed_step [OF s3 body]]])
  moreover have "ZETTA_ERROR # ZETTA_ERROR # ZETTA_ERROR #
                 replicate (length pl) ZETTA_ERROR @ [ZETTA_ERROR]
      = replicate (length pl + 4) ZETTA_ERROR"
    by (simp add: replicate_append_same numeral_eq_Suc)
  ultimately show ?thesis by simp
qed

lemma awaiting_stop_facts:
  assumes cap: "length (payload (frame (internal p))) = MAX_PAYLOAD_SIZE"
    and ln: "length pl \<le> MAX_PAYLOAD_SIZE"
  shows "rx_frame_state (internal (awaiting_stop p ty pl c)) = STATE_RX_GET_STOP"
    and "pstate (internal (awaiting_stop p ty pl c)) = pstate (internal p)"
    and "interface (awaiting_stop p ty pl c) = interface p"
    and "payload_ready (internal (awaiting_stop p ty pl c)) = payload_ready (internal p)"
    and "crc (frame (internal (awaiting_stop p ty pl c))) = c"
    and "unat (len (frame (internal (awaiting_stop p ty pl c))))
           \<le> length (payload (frame (internal (awaiting_stop p ty pl c))))"
    and "type (frame (internal (awaiting_stop p ty pl c))) #
         len (frame (internal (awaiting_stop p ty pl c))) #
         take (unat (len (frame (internal (awaiting_stop p ty pl c)))))
              (payload (frame (internal (awaiting_stop p ty pl c))))
         = ty # of_nat (length pl) # pl"
proof -
  have un: "unat (of_nat (length pl) :: uint8_t) = length pl"
    using ln by (simp add: unat_of_nat MAX_PAYLOAD_SIZE_def)
  show "rx_frame_state (internal (awaiting_stop p ty pl c)) = STATE_RX_GET_STOP"
    and "pstate (internal (awaiting_stop p ty pl c)) = pstate (internal p)"
    and "interface (awaiting_stop p ty pl c) = interface p"
    and "payload_ready (internal (awaiting_stop p ty pl c)) = payload_ready (internal p)"
    and "crc (frame (internal (awaiting_stop p ty pl c))) = c"
    by (simp_all add: awaiting_stop_def)
  show "unat (len (frame (internal (awaiting_stop p ty pl c))))
           \<le> length (payload (frame (internal (awaiting_stop p ty pl c))))"
    using un cap ln by (simp add: awaiting_stop_def)
  show "type (frame (internal (awaiting_stop p ty pl c))) #
         len (frame (internal (awaiting_stop p ty pl c))) #
         take (unat (len (frame (internal (awaiting_stop p ty pl c)))))
              (payload (frame (internal (awaiting_stop p ty pl c))))
         = ty # of_nat (length pl) # pl"
    using un by (simp add: awaiting_stop_def)
qed

subsection \<open>The error hook\<close>

lemma call_OnError_default:
  "OnError (interface p) = zetta_error_manager_fn \<Longrightarrow> e \<noteq> ZETTA_ERROR \<Longrightarrow>
   call_OnError p e w =
     Inr (p\<lparr>internal := (internal p)\<lparr>rx_frame_state := STATE_RX_WAIT_START\<rparr>\<rparr>,
          w\<lparr>raised := raised w @ [e]\<rparr>)"
  by (cases e) (simp_all add: call_OnError_def zetta_error_manager_def Let_def)

lemma signal_rx_error_default:
  "OnError (interface p) = zetta_error_manager_fn \<Longrightarrow> e \<noteq> ZETTA_ERROR \<Longrightarrow>
   signal_rx_error p e w =
     Inr (ZETTA_ERROR,
          p\<lparr>internal := (internal p)\<lparr>error := e, rx_frame_state := STATE_RX_WAIT_START\<rparr>\<rparr>,
          w\<lparr>raised := raised w @ [e]\<rparr>)"
  by (simp add: signal_rx_error_def call_OnError_default)

lemma call_OnError_nonnull:
  "OnError (interface p) \<noteq> NULL_HandleError \<Longrightarrow> e \<noteq> ZETTA_ERROR \<Longrightarrow>
   \<exists>p'. call_OnError p e w = Inr (p', w\<lparr>raised := raised w @ [e]\<rparr>) \<and>
        interface p' = interface p"
  by (cases "OnError (interface p)"; cases e)
     (simp_all add: call_OnError_def zetta_error_manager_def Let_def)

lemma body_GET_LEN_too_large:
  "rx_frame_state (internal p) = STATE_RX_GET_LEN \<Longrightarrow> unat b > MAX_PAYLOAD_SIZE \<Longrightarrow>
   OnError (interface p) = zetta_error_manager_fn \<Longrightarrow>
   zetta_ParseByte_body p b w =
     Inr (ZETTA_ERROR,
          p\<lparr>internal := (internal p)\<lparr>error := ZETTA_ERROR_PAYLOAD_TOO_LARGE,
               rx_frame_state := STATE_RX_WAIT_START\<rparr>\<rparr>,
          w\<lparr>raised := raised w @ [ZETTA_ERROR_PAYLOAD_TOO_LARGE]\<rparr>)"
  by (simp add: zetta_ParseByte_body_def Let_def rx_state_defs signal_rx_error_default)

subsection \<open>Sending\<close>

lemma zetta_send_body_OK_pstate:
  "zetta_send_body p ty pData ln w = Inr (ZETTA_OK, p', w') \<Longrightarrow>
   pstate (internal p') = ZETTA_STATE_TX_BUSY"
  by (auto simp: zetta_send_body_def Let_def zetta_compute_crc_def
      split: if_splits sum.splits prod.splits ZettaTransmit.splits ZettaComputeCRC.splits)

lemma tx_buf_layout:
  assumes "length pl \<le> 25"
  shows "(take 3 ((replicate 30 (0::uint8_t))[0 := s, Suc 0 := ty, 2 := n]) @ pl @
          replicate (27 - length pl) 0)
          [3 + length pl := c, 4 + length pl := e]
        = s # ty # n # pl @ c # e # replicate (25 - length pl) 0"
proof -
  let ?k = "length pl"
  let ?Z = "replicate (25 - ?k) (0::uint8_t)"
  have a: "(replicate 30 (0::uint8_t))[0 := s, Suc 0 := ty, 2 := n] = s # ty # n # replicate 27 0"
    by (simp add: eval_list)
  have "27 - ?k = Suc (Suc (25 - ?k))" using assms by simp
  then have b: "replicate (27 - ?k) (0::uint8_t) = 0 # 0 # ?Z"
    by simp
  have i3: "3 + ?k = Suc (Suc (Suc ?k))" and i4: "4 + ?k = Suc (Suc (Suc (Suc ?k)))"
    by simp_all
  have t: "take 3 (s # ty # n # replicate 27 (0::uint8_t)) = [s, ty, n]"
    by simp
  have u1: "(pl @ 0 # 0 # ?Z)[?k := c] = pl @ c # 0 # ?Z"
    by (simp add: list_update_append)
  have u2: "(pl @ c # 0 # ?Z)[Suc ?k := e] = pl @ c # e # ?Z"
    by (simp add: list_update_append)
  have "([s, ty, n] @ pl @ 0 # 0 # ?Z)[3 + ?k := c, 4 + ?k := e]
      = s # ty # n # ((pl @ 0 # 0 # ?Z)[?k := c])[Suc ?k := e]"
    unfolding i3 i4 by simp
  also have "\<dots> = s # ty # n # pl @ c # e # ?Z"
    unfolding u1 u2 by simp
  finally show ?thesis
    unfolding a t b .
qed

lemma take_wire_frame:
  "take (5 + length pl) (s # ty # n # pl @ c # e # zs) = s # ty # n # pl @ [c, e]"
proof -
  have e: "5 + length pl = Suc (Suc (Suc (length pl + 2)))" by simp
  have "take (length pl + 2) (pl @ c # e # zs) = pl @ [c, e]"
    by (simp add: numeral_2_eq_2)
  then show ?thesis unfolding e by simp
qed

lemma zetta_send_body_OK:
  assumes ln: "length pl \<le> MAX_PAYLOAD_SIZE"
    and cap: "length (payload (frame (internal p))) = MAX_PAYLOAD_SIZE"
    and crcf: "computeCRC (interface p) = ComputeCRC_fn g"
    and tr: "send (interface p) = Transmit_fn k"
  shows "zetta_send_body p ty pl (of_nat (length pl)) w =
     Inr (ZETTA_OK, sent_frame p ty pl (ucast (g (ty # of_nat (length pl) # pl))),
          w\<lparr>tx_buf := wire_frame ty pl (ucast (g (ty # of_nat (length pl) # pl))) @
                        replicate (25 - length pl) 0,
             buf_tx_size := 5 + of_nat (length pl),
             dbg_crc_val := g (ty # of_nat (length pl) # pl),
             sent := sent w @
               [(Transmit_fn k, wire_frame ty pl (ucast (g (ty # of_nat (length pl) # pl))))]\<rparr>)"
proof -
  let ?n = "of_nat (length pl) :: uint8_t"
  have un: "unat ?n = length pl"
    using ln by (simp add: unat_of_nat MAX_PAYLOAD_SIZE_def)
  have l25: "length pl \<le> 25" using ln by (simp add: MAX_PAYLOAD_SIZE_def)
  have sz: "unat (5 + ?n) = 5 + length pl"
    using l25 un by (simp add: unat_word_ariths)
  have uc: "(ucast ?n :: uint16_t) = of_nat (length pl)"
    using un by (metis of_nat_unat unsigned_of_nat unat_of_nat ucast_id)
  have sz16: "unat (3 + of_nat (length pl) :: uint16_t) = 3 + length pl"
    "unat (4 + of_nat (length pl) :: uint16_t) = 4 + length pl"
    "unat (ucast (5 + of_nat (length pl) :: uint16_t) :: uint8_t) = 5 + length pl"
    using l25 by (simp_all add: unat_word_ariths unat_of_nat unsigned_ucast_eq take_bit_eq_mod)
  show ?thesis
    using un l25 cap crcf tr
    apply (simp add: zetta_send_body_def Let_def memcpy_def zetta_compute_crc_def
        MAX_PAYLOAD_SIZE_def uc sz16 sent_frame_def wire_frame_def)
    apply (simp add: tx_buf_layout take_wire_frame)
    done
qed

subsection \<open>The invariant of reachable instances\<close>

lemma instance_inv_init: "instance_inv (zetta_init packet iface)"
  by (simp add: instance_inv_def zetta_init_eq zero_frame_def rx_state_defs)

lemma instance_inv_rx_complete: "instance_inv p \<Longrightarrow> instance_inv (zetta_recieve_cplt_clb p)"
  by (simp add: instance_inv_def zetta_recieve_cplt_clb_def)

lemma instance_inv_tx_complete: "instance_inv p \<Longrightarrow> instance_inv (zetta_transmit_cplt_clb p)"
  by (simp add: instance_inv_def zetta_transmit_cplt_clb_def)

lemma instance_inv_send:
  assumes "instance_inv p" and "zetta_send_body p ty pData ln w = Inr (r, p', w')"
  shows "instance_inv p'"
proof (cases "unat ln > MAX_PAYLOAD_SIZE")
  case True
  then show ?thesis
    using assms
    by (auto simp: zetta_send_body_def instance_inv_def call_OnError_default rx_state_defs)
next
  case False
  then show ?thesis
    using assms
    by (auto simp: zetta_send_body_def instance_inv_def Let_def memcpy_def zetta_compute_crc_def
        split: if_splits sum.splits prod.splits ZettaTransmit.splits ZettaComputeCRC.splits)
qed

lemma unat_index_Suc:
  "unat (i :: uint8_t) < MAX_PAYLOAD_SIZE \<Longrightarrow> unat (i + 1) = Suc (unat i)"
  by (simp add: unat_word_ariths MAX_PAYLOAD_SIZE_def)

lemma instance_inv_parse:
  assumes inv: "instance_inv p" and run: "zetta_ParseByte_body p b w = Inr (r, p', w')"
  shows "instance_inv p'"
proof -
  have h: "OnError (interface p) = zetta_error_manager_fn" using inv by (simp add: instance_inv_def)
  consider (ws) "rx_frame_state (internal p) = STATE_RX_WAIT_START"
    | (ty) "rx_frame_state (internal p) = STATE_RX_GET_TYPE"
    | (ln) "rx_frame_state (internal p) = STATE_RX_GET_LEN"
    | (pl) "rx_frame_state (internal p) = STATE_RX_GET_PAYLOAD"
    | (cr) "rx_frame_state (internal p) = STATE_RX_GET_CRC"
    | (st) "rx_frame_state (internal p) = STATE_RX_GET_STOP"
    | (other) "rx_frame_state (internal p) \<notin> {STATE_RX_WAIT_START, STATE_RX_GET_TYPE,
         STATE_RX_GET_LEN, STATE_RX_GET_PAYLOAD, STATE_RX_GET_CRC, STATE_RX_GET_STOP}"
    by blast
  then show ?thesis
  proof cases
    case ws
    then show ?thesis using inv run h
      by (auto simp: zetta_ParseByte_body_def Let_def instance_inv_def signal_rx_error_default
          rx_state_defs split: if_splits)
  next
    case ty
    then show ?thesis using inv run
      by (auto simp: body_GET_TYPE instance_inv_def rx_state_defs)
  next
    case ln
    then show ?thesis using inv run h
      by (cases "unat b \<le> MAX_PAYLOAD_SIZE")
         (auto simp: body_GET_LEN_ok body_GET_LEN_too_large instance_inv_def rx_state_defs
            MAX_PAYLOAD_SIZE_def)
  next
    case pl
    then have idx: "unat (index (internal p)) < MAX_PAYLOAD_SIZE"
      using inv by (simp add: instance_inv_def)
    then have idx': "unat (index (internal p)) < length (payload (frame (internal p)))"
      using inv by (simp add: instance_inv_def)
    show ?thesis
      using inv run idx unat_index_Suc [OF idx]
      by (auto simp: body_GET_PAYLOAD [OF pl idx'] instance_inv_def rx_state_defs
          split: if_splits)
  next
    case cr
    then show ?thesis using inv run
      by (auto simp: body_GET_CRC instance_inv_def rx_state_defs)
  next
    case st
    then show ?thesis using inv run h
      by (auto simp: zetta_ParseByte_body_def Let_def instance_inv_def signal_rx_error_default
          zetta_compute_crc_def rx_state_defs
          split: if_splits sum.splits prod.splits ZettaComputeCRC.splits)
  next
    case other
    then show ?thesis using inv run h
      by (auto simp: zetta_ParseByte_body_def Let_def instance_inv_def signal_rx_error_default
          rx_state_defs split: if_splits)
  qed
qed

lemma reachable_instance_inv: "reachable p \<Longrightarrow> instance_inv p"
proof (induction rule: reachable.induct)
  case (init packet iface)
  show ?case by (rule instance_inv_init)
next
  case (sending p ty pData ln w r p' w')
  have "pstate (internal p) \<noteq> ZETTA_STATE_TX_BUSY"
    using sending.hyps(2) zetta_send_hangs [of p ty pData ln w] by auto
  then have "zetta_send_body p ty pData ln w = Inr (r, p', w')"
    using sending.hyps(2) by (simp add: zetta_send_free)
  with sending.IH show ?case by (rule instance_inv_send)
next
  case (parsing p byte w r p' w')
  have "pstate (internal p) \<noteq> ZETTA_STATE_RX_BUSY"
    using parsing.IH by (simp add: instance_inv_def)
  then have "zetta_ParseByte_body p byte w = Inr (r, p', w')"
    using parsing.hyps(2) by (simp add: zetta_ParseByte_free)
  with parsing.IH show ?case by (rule instance_inv_parse)
next
  case (rx_complete p)
  from rx_complete.IH show ?case by (rule instance_inv_rx_complete)
next
  case (tx_complete p)
  from tx_complete.IH show ?case by (rule instance_inv_tx_complete)
qed

subsection \<open>The error branches of the receive state machine\<close>

lemma rx_state_cases:
  obtains (ws) "st = STATE_RX_WAIT_START"
    | (ty) "st = STATE_RX_GET_TYPE"
    | (ln) "st = STATE_RX_GET_LEN"
    | (pl) "st = STATE_RX_GET_PAYLOAD"
    | (cr) "st = STATE_RX_GET_CRC"
    | (st) "st = STATE_RX_GET_STOP"
    | (other) "st \<noteq> STATE_RX_WAIT_START" "st \<noteq> STATE_RX_GET_TYPE" "st \<noteq> STATE_RX_GET_LEN"
        "st \<noteq> STATE_RX_GET_PAYLOAD" "st \<noteq> STATE_RX_GET_CRC" "st \<noteq> STATE_RX_GET_STOP"
  by blast

lemma body_WAIT_START_other:
  "rx_frame_state (internal p) = STATE_RX_WAIT_START \<Longrightarrow> b \<noteq> START_BYTE \<Longrightarrow>
   OnError (interface p) = zetta_error_manager_fn \<Longrightarrow>
   zetta_ParseByte_body p b w =
     Inr (ZETTA_ERROR,
          p\<lparr>internal := (internal p)\<lparr>error := ZETTA_ERROR_INVALID_START,
               rx_frame_state := STATE_RX_WAIT_START\<rparr>\<rparr>,
          w\<lparr>raised := raised w @ [ZETTA_ERROR_INVALID_START]\<rparr>)"
  by (simp add: zetta_ParseByte_body_def Let_def rx_state_defs signal_rx_error_default)

lemma body_GET_STOP_other:
  "rx_frame_state (internal p) = STATE_RX_GET_STOP \<Longrightarrow> b \<noteq> STOP_BYTE \<Longrightarrow>
   OnError (interface p) = zetta_error_manager_fn \<Longrightarrow>
   zetta_ParseByte_body p b w =
     Inr (ZETTA_ERROR,
          p\<lparr>internal := (internal p)\<lparr>error := ZETTA_ERROR_INVALID_STOP,
               rx_frame_state := STATE_RX_WAIT_START\<rparr>\<rparr>,
          w\<lparr>raised := raised w @ [ZETTA_ERROR_INVALID_STOP]\<rparr>)"
  by (simp add: zetta_ParseByte_body_def Let_def rx_state_defs signal_rx_error_default)

lemma body_GET_STOP_mismatch:
  "rx_frame_state (internal p) = STATE_RX_GET_STOP \<Longrightarrow>
   unat (len (frame (internal p))) \<le> length (payload (frame (internal p))) \<Longrightarrow>
   computeCRC (interface p) = ComputeCRC_fn g \<Longrightarrow>
   g (type (frame (internal p)) # len (frame (internal p)) #
        take (unat (len (frame (internal p)))) (payload (frame (internal p))))
     \<noteq> ucast (crc (frame (internal p))) \<Longrightarrow>
   OnError (interface p) = zetta_error_manager_fn \<Longrightarrow>
   zetta_ParseByte_body p STOP_BYTE w =
     Inr (ZETTA_ERROR,
          p\<lparr>internal := (internal p)\<lparr>frame := (frame (internal p))\<lparr>stop := STOP_BYTE\<rparr>,
               error := ZETTA_ERROR_CRC_MISMATCH, rx_frame_state := STATE_RX_WAIT_START\<rparr>\<rparr>,
          w\<lparr>dbg_crc_val :=
               g (type (frame (internal p)) # len (frame (internal p)) #
                  take (unat (len (frame (internal p)))) (payload (frame (internal p)))),
            raised := raised w @ [ZETTA_ERROR_CRC_MISMATCH]\<rparr>)"
  by (simp add: zetta_ParseByte_body_def Let_def rx_state_defs signal_rx_error_default
      zetta_compute_crc_def)

lemma body_invalid_state:
  "rx_frame_state (internal p) \<noteq> STATE_RX_WAIT_START \<Longrightarrow>
   rx_frame_state (internal p) \<noteq> STATE_RX_GET_TYPE \<Longrightarrow>
   rx_frame_state (internal p) \<noteq> STATE_RX_GET_LEN \<Longrightarrow>
   rx_frame_state (internal p) \<noteq> STATE_RX_GET_PAYLOAD \<Longrightarrow>
   rx_frame_state (internal p) \<noteq> STATE_RX_GET_CRC \<Longrightarrow>
   rx_frame_state (internal p) \<noteq> STATE_RX_GET_STOP \<Longrightarrow>
   OnError (interface p) = zetta_error_manager_fn \<Longrightarrow>
   zetta_ParseByte_body p b w =
     Inr (ZETTA_ERROR,
          p\<lparr>internal := (internal p)\<lparr>error := ZETTA_FRAME_ERROR,
               rx_frame_state := STATE_RX_WAIT_START\<rparr>\<rparr>,
          w\<lparr>raised := raised w @ [ZETTA_FRAME_ERROR]\<rparr>)"
  by (simp add: zetta_ParseByte_body_def Let_def signal_rx_error_default)

lemma body_error_or_not:
  assumes hook: "OnError (interface p) = zetta_error_manager_fn"
    and run: "zetta_ParseByte_body p b w = Inr (r, p', w')"
  shows "(raised w' = raised w \<and> error (internal p') = error (internal p)) \<or>
         (raised w' = raised w @ [error (internal p')] \<and>
          error (internal p') \<in> {ZETTA_ERROR_INVALID_START, ZETTA_ERROR_PAYLOAD_TOO_LARGE,
            ZETTA_ERROR_CRC_MISMATCH, ZETTA_ERROR_INVALID_STOP, ZETTA_FRAME_ERROR} \<and> r = ZETTA_ERROR \<and>
          rx_frame_state (internal p') = STATE_RX_WAIT_START \<and>
          interface p' = interface p \<and>
          pstate (internal p') = pstate (internal p) \<and>
          payload_ready (internal p') = payload_ready (internal p) \<and>
          type (frame (internal p')) = type (frame (internal p)) \<and>
          len (frame (internal p')) = len (frame (internal p)) \<and>
          payload (frame (internal p')) = payload (frame (internal p)))"
proof (cases "rx_frame_state (internal p)" rule: rx_state_cases)
  case ws
  then show ?thesis using run hook
    by (cases "b = START_BYTE")
       (auto simp: body_WAIT_START_start body_WAIT_START_other)
next
  case ty
  then show ?thesis using run by (auto simp: body_GET_TYPE)
next
  case ln
  then show ?thesis using run hook
    by (cases "unat b \<le> MAX_PAYLOAD_SIZE")
       (auto simp: body_GET_LEN_ok body_GET_LEN_too_large)
next
  case pl
  then show ?thesis using run
    by (auto simp: zetta_ParseByte_body_def Let_def rx_state_defs split: if_splits)
next
  case cr
  then show ?thesis using run by (auto simp: body_GET_CRC)
next
  case st
  show ?thesis
  proof (cases "b = STOP_BYTE")
    case False
    then show ?thesis using st run hook
      by (auto simp: body_GET_STOP_other)
  next
    case True
    then show ?thesis using st run hook
      by (auto simp: zetta_ParseByte_body_def Let_def rx_state_defs signal_rx_error_default
          zetta_compute_crc_def
          split: if_splits sum.splits prod.splits ZettaComputeCRC.splits)
  qed
next
  case other
  then show ?thesis using run hook
    by (auto simp: body_invalid_state)
qed

lemma body_error_kind:
  assumes hook: "OnError (interface p) = zetta_error_manager_fn"
    and run: "zetta_ParseByte_body p b w = Inr (r, p', w')"
  shows "(rx_frame_state (internal p) = STATE_RX_WAIT_START \<and> b \<noteq> START_BYTE \<longrightarrow>
            raised w' = raised w @ [ZETTA_ERROR_INVALID_START]) \<and>
         (rx_frame_state (internal p) = STATE_RX_GET_LEN \<and> unat b > MAX_PAYLOAD_SIZE \<longrightarrow>
            raised w' = raised w @ [ZETTA_ERROR_PAYLOAD_TOO_LARGE]) \<and>
         (rx_frame_state (internal p) = STATE_RX_GET_STOP \<and> b \<noteq> STOP_BYTE \<longrightarrow>
            raised w' = raised w @ [ZETTA_ERROR_INVALID_STOP]) \<and>
         (rx_frame_state (internal p) = STATE_RX_GET_STOP \<and> b = STOP_BYTE \<and> r \<noteq> ZETTA_OK \<longrightarrow>
            raised w' = raised w @ [ZETTA_ERROR_CRC_MISMATCH]) \<and>
         (rx_frame_state (internal p) \<notin> {STATE_RX_WAIT_START, STATE_RX_GET_TYPE,
              STATE_RX_GET_LEN, STATE_RX_GET_PAYLOAD, STATE_RX_GET_CRC, STATE_RX_GET_STOP} \<longrightarrow>
            raised w' = raised w @ [ZETTA_FRAME_ERROR])"
proof (cases "rx_frame_state (internal p)" rule: rx_state_cases)
  case ws
  then show ?thesis using run hook
    by (cases "b = START_BYTE")
       (auto simp: body_WAIT_START_start body_WAIT_START_other rx_state_defs)
next
  case ty
  then show ?thesis using run by (auto simp: body_GET_TYPE rx_state_defs)
next
  case ln
  then show ?thesis using run hook
    by (cases "unat b \<le> MAX_PAYLOAD_SIZE")
       (auto simp: body_GET_LEN_ok body_GET_LEN_too_large rx_state_defs)
next
  case pl
  then show ?thesis by (simp add: rx_state_defs)
next
  case cr
  then show ?thesis by (simp add: rx_state_defs)
next
  case st
  show ?thesis
  proof (cases "b = STOP_BYTE")
    case False
    then show ?thesis using st run hook
      by (auto simp: body_GET_STOP_other rx_state_defs)
  next
    case True
    have "raised w' = raised w @ [ZETTA_ERROR_CRC_MISMATCH]" if "r \<noteq> ZETTA_OK"
      using that True st run hook
      by (auto simp: zetta_ParseByte_body_def Let_def rx_state_defs signal_rx_error_default
          zetta_compute_crc_def
          split: if_splits sum.splits prod.splits ZettaComputeCRC.splits)
    then show ?thesis using st True by (simp add: rx_state_defs)
  qed
next
  case other
  then show ?thesis using run hook
    by (auto simp: body_invalid_state)
qed

subsection \<open>What a step leaves unchanged\<close>

lemma zetta_ParseByte_SomeD:
  "zetta_ParseByte p b w = Some x \<Longrightarrow>
   pstate (internal p) \<noteq> ZETTA_STATE_RX_BUSY \<and> x = zetta_ParseByte_body p b w"
  using zetta_ParseByte_hangs [of p b w] zetta_ParseByte_free [of p b w]
  by (cases "pstate (internal p) = ZETTA_STATE_RX_BUSY") auto

lemma zetta_send_SomeD:
  "zetta_send p ty pData ln w = Some x \<Longrightarrow>
   pstate (internal p) \<noteq> ZETTA_STATE_TX_BUSY \<and> x = zetta_send_body p ty pData ln w"
  using zetta_send_hangs [of p ty pData ln w] zetta_send_free [of p ty pData ln w]
  by (cases "pstate (internal p) = ZETTA_STATE_TX_BUSY") auto

lemma body_no_error_facts:
  assumes hook: "OnError (interface p) = zetta_error_manager_fn"
    and run: "zetta_ParseByte_body p b w = Inr (r, p', w')"
  shows "interface p' = interface p \<and> pstate (internal p') = pstate (internal p) \<and>
         (r = ZETTA_OK \<or> r = ZETTA_ERROR) \<and>
         (r = ZETTA_OK \<longrightarrow> payload_ready (internal p') = 1 \<and> raised w' = raised w) \<and>
         (r \<noteq> ZETTA_OK \<longrightarrow> payload_ready (internal p') = payload_ready (internal p))"
proof (cases "rx_frame_state (internal p)" rule: rx_state_cases)
  case ws
  then show ?thesis using run hook
    by (cases "b = START_BYTE")
       (auto simp: body_WAIT_START_start body_WAIT_START_other)
next
  case ty
  then show ?thesis using run by (auto simp: body_GET_TYPE)
next
  case ln
  then show ?thesis using run hook
    by (cases "unat b \<le> MAX_PAYLOAD_SIZE")
       (auto simp: body_GET_LEN_ok body_GET_LEN_too_large)
next
  case pl
  then show ?thesis using run
    by (auto simp: zetta_ParseByte_body_def Let_def rx_state_defs split: if_splits)
next
  case cr
  then show ?thesis using run by (auto simp: body_GET_CRC)
next
  case st
  show ?thesis
  proof (cases "b = STOP_BYTE")
    case False
    then show ?thesis using st run hook
      by (auto simp: body_GET_STOP_other)
  next
    case True
    then show ?thesis using st run hook
      by (auto simp: zetta_ParseByte_body_def Let_def rx_state_defs signal_rx_error_default
          zetta_compute_crc_def
          split: if_splits sum.splits prod.splits ZettaComputeCRC.splits)
  qed
next
  case other
  then show ?thesis using run hook
    by (auto simp: body_invalid_state)
qed

lemma send_body_payload_ready:
  assumes "OnError (interface p) = zetta_error_manager_fn"
    and "zetta_send_body p ty pData ln w = Inr (r, p', w')"
  shows "payload_ready (internal p') = payload_ready (internal p)"
proof (cases "unat ln > MAX_PAYLOAD_SIZE")
  case True
  then show ?thesis
    using assms by (auto simp: zetta_send_body_def call_OnError_default)
next
  case False
  then show ?thesis
    using assms
    by (auto simp: zetta_send_body_def Let_def memcpy_def zetta_compute_crc_def
        split: if_splits sum.splits prod.splits ZettaTransmit.splits ZettaComputeCRC.splits)
qed

lemma feed_no_frame_completed:
  "OnError (interface p) = zetta_error_manager_fn \<Longrightarrow>
   feed p w bs = Some (Inr (rs, p', w')) \<Longrightarrow> ZETTA_OK \<notin> set rs \<Longrightarrow>
   payload_ready (internal p') = payload_ready (internal p)"
proof (induction bs arbitrary: p w rs)
  case Nil
  then show ?case by simp
next
  case (Cons b bs)
  from Cons.prems(2) obtain r p1 w1 rs1 where
    step: "zetta_ParseByte p b w = Some (Inr (r, p1, w1))"
    and rest: "feed p1 w1 bs = Some (Inr (rs1, p', w'))"
    and rs: "rs = r # rs1"
    by (auto split: option.splits sum.splits prod.splits)
  from step have body: "zetta_ParseByte_body p b w = Inr (r, p1, w1)"
    by (auto dest: zetta_ParseByte_SomeD)
  note facts = body_no_error_facts [OF Cons.prems(1) body]
  have "r \<noteq> ZETTA_OK" using rs Cons.prems(3) by auto
  then have "payload_ready (internal p1) = payload_ready (internal p)"
    using facts by simp
  moreover have "payload_ready (internal p') = payload_ready (internal p1)"
    using facts rs Cons.prems(1,3) by (intro Cons.IH [OF _ rest]) auto
  ultimately show ?case by simp
qed

lemma feed_reachable:
  "reachable p \<Longrightarrow> feed p w bs = Some (Inr (rs, p', w')) \<Longrightarrow> reachable p'"
proof (induction bs arbitrary: p w rs)
  case Nil
  then show ?case by simp
next
  case (Cons b bs)
  from Cons.prems(2) obtain r p1 w1 rs1 where
    step: "zetta_ParseByte p b w = Some (Inr (r, p1, w1))"
    and rest: "feed p1 w1 bs = Some (Inr (rs1, p', w'))"
    by (auto split: option.splits sum.splits prod.splits)
  have "reachable p1" using Cons.prems(1) step by (rule reachable.parsing)
  then show ?case using rest by (rule Cons.IH)
qed

lemma GET_STOP_accepts_iff_untruncated_crc_equal:
  assumes "rx_frame_state (internal p) = STATE_RX_GET_STOP"
    and "pstate (internal p) \<noteq> ZETTA_STATE_RX_BUSY"
    and "unat (len (frame (internal p))) \<le> length (payload (frame (internal p)))"
    and "computeCRC (interface p) = ComputeCRC_fn g"
    and "OnError (interface p) = zetta_error_manager_fn"
  shows "(\<exists>p' w'. zetta_ParseByte p STOP_BYTE w = Some (Inr (ZETTA_OK, p', w'))) \<longleftrightarrow>
         g (type (frame (internal p)) # len (frame (internal p)) #
            take (unat (len (frame (internal p)))) (payload (frame (internal p))))
           = ucast (crc (frame (internal p)))"
  using assms
  by (cases "g (type (frame (internal p)) # len (frame (internal p)) #
            take (unat (len (frame (internal p)))) (payload (frame (internal p))))
           = ucast (crc (frame (internal p)))")
     (simp_all add: zetta_ParseByte_free body_GET_STOP_match body_GET_STOP_mismatch)

lemma signal_rx_error_nonnull:
  "OnError (interface p) \<noteq> NULL_HandleError \<Longrightarrow> e \<noteq> ZETTA_ERROR \<Longrightarrow>
   \<exists>p'. signal_rx_error p e w = Inr (ZETTA_ERROR, p', w\<lparr>raised := raised w @ [e]\<rparr>)"
proof -
  assume h: "OnError (interface p) \<noteq> NULL_HandleError" and e: "e \<noteq> ZETTA_ERROR"
  let ?q = "p\<lparr>internal := (internal p)\<lparr>error := e\<rparr>\<rparr>"
  have "OnError (interface ?q) \<noteq> NULL_HandleError" using h by simp
  from call_OnError_nonnull [OF this e, of w]
  obtain p' where "call_OnError ?q e w = Inr (p', w\<lparr>raised := raised w @ [e]\<rparr>)" by blast
  then show ?thesis by (simp add: signal_rx_error_def)
qed

lemma body_returns:
  assumes hook: "OnError (interface p) \<noteq> NULL_HandleError"
    and idx: "rx_frame_state (internal p) = STATE_RX_GET_PAYLOAD \<longrightarrow>
        unat (index (internal p)) < length (payload (frame (internal p)))"
    and crc: "rx_frame_state (internal p) = STATE_RX_GET_STOP \<and> b = STOP_BYTE \<longrightarrow>
        computeCRC (interface p) \<noteq> NULL_ZettaComputeCRC \<and>
        unat (len (frame (internal p))) \<le> length (payload (frame (internal p)))"
  shows "\<exists>r p' w'. zetta_ParseByte_body p b w = Inr (r, p', w') \<and>
           (r = ZETTA_OK \<or> r = ZETTA_ERROR)"
proof (cases "rx_frame_state (internal p)" rule: rx_state_cases)
  case ws
  then show ?thesis
    using signal_rx_error_nonnull [OF hook, of ZETTA_ERROR_INVALID_START w]
    by (cases "b = START_BYTE") (auto simp: body_WAIT_START_start zetta_ParseByte_body_def Let_def)
next
  case ty
  then show ?thesis by (simp add: body_GET_TYPE)
next
  case ln
  then show ?thesis
    using signal_rx_error_nonnull [OF hook, of ZETTA_ERROR_PAYLOAD_TOO_LARGE w]
    by (cases "unat b \<le> MAX_PAYLOAD_SIZE")
       (auto simp: body_GET_LEN_ok zetta_ParseByte_body_def Let_def rx_state_defs)
next
  case pl
  then show ?thesis using idx by (simp add: body_GET_PAYLOAD)
next
  case cr
  then show ?thesis by (simp add: body_GET_CRC)
next
  case st
  show ?thesis
  proof (cases "b = STOP_BYTE")
    case False
    then show ?thesis
      using st signal_rx_error_nonnull [OF hook, of ZETTA_ERROR_INVALID_STOP w]
      by (auto simp: zetta_ParseByte_body_def Let_def rx_state_defs)
  next
    case True
    let ?p1 = "p\<lparr>internal := (internal p)\<lparr>rx_frame_state := STATE_RX_WAIT_START,
                 frame := (frame (internal p))\<lparr>stop := STOP_BYTE\<rparr>\<rparr>\<rparr>"
    from crc st True obtain g where g: "computeCRC (interface p) = ComputeCRC_fn g"
      and fit: "unat (len (frame (internal p))) \<le> length (payload (frame (internal p)))"
      by (cases "computeCRC (interface p)") auto
    have h1: "OnError (interface ?p1) \<noteq> NULL_HandleError" using hook by simp
    let ?x = "g (type (frame (internal p)) # len (frame (internal p)) #
                 take (unat (len (frame (internal p)))) (payload (frame (internal p))))"
    show ?thesis
    proof (cases "?x = ucast (crc (frame (internal p)))")
      case eq: True
      then show ?thesis
        using body_GET_STOP_match [OF st fit g eq, of w] True by simp
    next
      case ne: False
      from signal_rx_error_nonnull [OF h1, of ZETTA_ERROR_CRC_MISMATCH "w\<lparr>dbg_crc_val := ?x\<rparr>"]
      obtain p' where "signal_rx_error ?p1 ZETTA_ERROR_CRC_MISMATCH (w\<lparr>dbg_crc_val := ?x\<rparr>) =
          Inr (ZETTA_ERROR, p',
               w\<lparr>dbg_crc_val := ?x, raised := raised w @ [ZETTA_ERROR_CRC_MISMATCH]\<rparr>)"
        by auto
      then show ?thesis
        using st True g fit ne
        by (simp add: zetta_ParseByte_body_def Let_def rx_state_defs zetta_compute_crc_def)
    qed
  qed
next
  case other
  then show ?thesis
    using signal_rx_error_nonnull [OF hook, of ZETTA_FRAME_ERROR w]
    by (auto simp: zetta_ParseByte_body_def Let_def)
qed

lemma rx_run_error_facts:
  assumes hook: "OnError (interface p) = zetta_error_manager_fn"
    and run: "zetta_ParseByte p b w = Some (Inr (r, p', w'))"
  shows "(raised w' = raised w \<longrightarrow> error (internal p') = error (internal p)) \<and>
         (rx_frame_state (internal p) = STATE_RX_WAIT_START \<and> b \<noteq> START_BYTE \<longrightarrow>
            raised w' = raised w @ [ZETTA_ERROR_INVALID_START]) \<and>
         (rx_frame_state (internal p) = STATE_RX_GET_LEN \<and> unat b > MAX_PAYLOAD_SIZE \<longrightarrow>
            raised w' = raised w @ [ZETTA_ERROR_PAYLOAD_TOO_LARGE]) \<and>
         (rx_frame_state (internal p) = STATE_RX_GET_STOP \<and> b \<noteq> STOP_BYTE \<longrightarrow>
            raised w' = raised w @ [ZETTA_ERROR_INVALID_STOP]) \<and>
         (rx_frame_state (internal p) = STATE_RX_GET_STOP \<and> b = STOP_BYTE \<and> r \<noteq> ZETTA_OK \<longrightarrow>
            raised w' = raised w @ [ZETTA_ERROR_CRC_MISMATCH]) \<and>
         (rx_frame_state (internal p) \<notin> {STATE_RX_WAIT_START, STATE_RX_GET_TYPE,
              STATE_RX_GET_LEN, STATE_RX_GET_PAYLOAD, STATE_RX_GET_CRC, STATE_RX_GET_STOP} \<longrightarrow>
            raised w' = raised w @ [ZETTA_FRAME_ERROR]) \<and>
         (raised w' \<noteq> raised w \<longrightarrow>
            raised w' = raised w @ [error (internal p')] \<and>
            error (internal p') \<in> {ZETTA_ERROR_INVALID_START, ZETTA_ERROR_PAYLOAD_TOO_LARGE,
              ZETTA_ERROR_CRC_MISMATCH, ZETTA_ERROR_INVALID_STOP, ZETTA_FRAME_ERROR} \<and>
            r = ZETTA_ERROR \<and>
            rx_frame_state (internal p') = STATE_RX_WAIT_START \<and>
            (computeCRC (interface p) = ComputeCRC_fn g \<and>
             length (payload (frame (internal p))) = MAX_PAYLOAD_SIZE \<and>
             length pl \<le> MAX_PAYLOAD_SIZE \<and>
             g (ty # of_nat (length pl) # pl) = ucast c \<longrightarrow>
               feed p' w' (wire_frame ty pl c) =
                 Some (Inr (replicate (length pl + 4) ZETTA_ERROR @ [ZETTA_OK],
                            received p' ty pl c, w'\<lparr>dbg_crc_val := ucast c\<rparr>))))"
proof -
  from run have gate: "pstate (internal p) \<noteq> ZETTA_STATE_RX_BUSY"
    and body: "zetta_ParseByte_body p b w = Inr (r, p', w')"
    by (auto dest: zetta_ParseByte_SomeD)
  note kinds = body_error_kind [OF hook body]
  note eon = body_error_or_not [OF hook body]
  have quiet: "raised w' = raised w \<longrightarrow> error (internal p') = error (internal p)"
    using eon by auto
  have loud: "raised w' = raised w @ [error (internal p')] \<and>
            error (internal p') \<in> {ZETTA_ERROR_INVALID_START, ZETTA_ERROR_PAYLOAD_TOO_LARGE,
              ZETTA_ERROR_CRC_MISMATCH, ZETTA_ERROR_INVALID_STOP, ZETTA_FRAME_ERROR} \<and>
            r = ZETTA_ERROR \<and>
            rx_frame_state (internal p') = STATE_RX_WAIT_START \<and>
            (computeCRC (interface p) = ComputeCRC_fn g \<and>
             length (payload (frame (internal p))) = MAX_PAYLOAD_SIZE \<and>
             length pl \<le> MAX_PAYLOAD_SIZE \<and>
             g (ty # of_nat (length pl) # pl) = ucast c \<longrightarrow>
               feed p' w' (wire_frame ty pl c) =
                 Some (Inr (replicate (length pl + 4) ZETTA_ERROR @ [ZETTA_OK],
                            received p' ty pl c, w'\<lparr>dbg_crc_val := ucast c\<rparr>)))"
    if ne: "raised w' \<noteq> raised w"
  proof -
    from eon ne have e: "raised w' = raised w @ [error (internal p')]"
      "error (internal p') \<in> {ZETTA_ERROR_INVALID_START, ZETTA_ERROR_PAYLOAD_TOO_LARGE,
              ZETTA_ERROR_CRC_MISMATCH, ZETTA_ERROR_INVALID_STOP, ZETTA_FRAME_ERROR}"
      "r = ZETTA_ERROR" "rx_frame_state (internal p') = STATE_RX_WAIT_START"
      "interface p' = interface p" "pstate (internal p') = pstate (internal p)"
      "payload (frame (internal p')) = payload (frame (internal p))"
      by auto
    have "feed p' w' (wire_frame ty pl c) =
                 Some (Inr (replicate (length pl + 4) ZETTA_ERROR @ [ZETTA_OK],
                            received p' ty pl c, w'\<lparr>dbg_crc_val := ucast c\<rparr>))"
      if "computeCRC (interface p) = ComputeCRC_fn g"
        "length (payload (frame (internal p))) = MAX_PAYLOAD_SIZE"
        "length pl \<le> MAX_PAYLOAD_SIZE"
        "g (ty # of_nat (length pl) # pl) = ucast c"
      unfolding wire_frame_def
      using that e gate by (intro feed_valid_frame [where g = g]) simp_all
    then show ?thesis using e(1-4) by blast
  qed
  show ?thesis using kinds quiet loud by blast
qed

lemma payload_ready_step_facts:
  "(OnError (interface p) = zetta_error_manager_fn \<and>
    zetta_ParseByte p b w = Some (Inr (r, p', w')) \<longrightarrow>
      (r = ZETTA_OK \<longrightarrow> payload_ready (internal p') = 1) \<and>
      (r \<noteq> ZETTA_OK \<longrightarrow> payload_ready (internal p') = payload_ready (internal p)) \<and>
      (raised w' \<noteq> raised w \<longrightarrow>
         r \<noteq> ZETTA_OK \<and> Zetta_GetType p' = Zetta_GetType p \<and>
         Zetta_GetPayload p' dest = Zetta_GetPayload p dest)) \<and>
   (OnError (interface p) = zetta_error_manager_fn \<and>
    zetta_send p ty pData ln ws = Some (Inr (r2, p2, w2)) \<longrightarrow>
      payload_ready (internal p2) = payload_ready (internal p)) \<and>
   (feed (zetta_init q iface) w0 bs = Some (Inr (rs, p3, w3)) \<and> ZETTA_OK \<notin> set rs \<longrightarrow>
      payload_ready (internal p3) = 0 \<and> Zetta_GetType p3 = MSG_ACK \<and>
      Zetta_GetPayload p3 dest = Inr dest) \<and>
   MSG_ACK = 0"
proof -
  have parse: "(r = ZETTA_OK \<longrightarrow> payload_ready (internal p') = 1) \<and>
      (r \<noteq> ZETTA_OK \<longrightarrow> payload_ready (internal p') = payload_ready (internal p)) \<and>
      (raised w' \<noteq> raised w \<longrightarrow>
         r \<noteq> ZETTA_OK \<and> Zetta_GetType p' = Zetta_GetType p \<and>
         Zetta_GetPayload p' dest = Zetta_GetPayload p dest)"
    if hook: "OnError (interface p) = zetta_error_manager_fn"
      and run: "zetta_ParseByte p b w = Some (Inr (r, p', w'))"
  proof -
    from run have body: "zetta_ParseByte_body p b w = Inr (r, p', w')"
      by (auto dest: zetta_ParseByte_SomeD)
    note facts = body_no_error_facts [OF hook body]
    note eon = body_error_or_not [OF hook body]
    have "r \<noteq> ZETTA_OK \<and> Zetta_GetType p' = Zetta_GetType p \<and>
         Zetta_GetPayload p' dest = Zetta_GetPayload p dest" if "raised w' \<noteq> raised w"
      using eon that by (auto simp: Zetta_GetType_def Zetta_GetPayload_def)
    then show ?thesis using facts by blast
  qed
  have snd: "payload_ready (internal p2) = payload_ready (internal p)"
    if hook: "OnError (interface p) = zetta_error_manager_fn"
      and run: "zetta_send p ty pData ln ws = Some (Inr (r2, p2, w2))"
  proof -
    from run have "zetta_send_body p ty pData ln ws = Inr (r2, p2, w2)"
      by (auto dest: zetta_send_SomeD)
    with hook show ?thesis by (rule send_body_payload_ready)
  qed
  have fresh: "payload_ready (internal p3) = 0 \<and> Zetta_GetType p3 = MSG_ACK \<and>
      Zetta_GetPayload p3 dest = Inr dest"
    if run: "feed (zetta_init q iface) w0 bs = Some (Inr (rs, p3, w3))" and no: "ZETTA_OK \<notin> set rs"
  proof -
    have "OnError (interface (zetta_init q iface)) = zetta_error_manager_fn"
      by (simp add: zetta_init_eq)
    from feed_no_frame_completed [OF this run no]
    have "payload_ready (internal p3) = 0" by (simp add: zetta_init_eq)
    then show ?thesis by (simp add: Zetta_GetType_def Zetta_GetPayload_def)
  qed
  show ?thesis using parse snd fresh by (simp add: MSG_ACK_def)
qed

lemma no_frame_completed_reachable: "no_frame_completed p \<Longrightarrow> reachable p"
  by (induction rule: no_frame_completed.induct) (auto intro: reachable.intros)

lemma no_frame_completed_payload_ready:
  "no_frame_completed p \<Longrightarrow> payload_ready (internal p) = 0"
proof (induction rule: no_frame_completed.induct)
  case (init packet iface)
  show ?case by (simp add: zetta_init_eq)
next
  case (sending p ty pData ln w r p' w')
  have hook: "OnError (interface p) = zetta_error_manager_fn"
    using sending.hyps(1) no_frame_completed_reachable reachable_instance_inv
    by (auto simp: instance_inv_def)
  from sending.hyps(2) have "zetta_send_body p ty pData ln w = Inr (r, p', w')"
    by (auto dest: zetta_send_SomeD)
  from send_body_payload_ready [OF hook this] sending.IH show ?case by simp
next
  case (parsing p byte w r p' w')
  have hook: "OnError (interface p) = zetta_error_manager_fn"
    using parsing.hyps(1) no_frame_completed_reachable reachable_instance_inv
    by (auto simp: instance_inv_def)
  from parsing.hyps(2) have "zetta_ParseByte_body p byte w = Inr (r, p', w')"
    by (auto dest: zetta_ParseByte_SomeD)
  from body_no_error_facts [OF hook this] parsing.hyps(3) parsing.IH show ?case by simp
next
  case (rx_complete p)
  then show ?case by (simp add: zetta_recieve_cplt_clb_def)
next
  case (tx_complete p)
  then show ?case by (simp add: zetta_transmit_cplt_clb_def)
qed

lemma feed_no_frame_completed_pred:
  "no_frame_completed p \<Longrightarrow> feed p w bs = Some (Inr (rs, p', w')) \<Longrightarrow> ZETTA_OK \<notin> set rs
   \<Longrightarrow> no_frame_completed p'"
proof (induction bs arbitrary: p w rs)
  case Nil
  then show ?case by simp
next
  case (Cons b bs)
  from Cons.prems(2) obtain r p1 w1 rs1 where
    step: "zetta_ParseByte p b w = Some (Inr (r, p1, w1))"
    and rest: "feed p1 w1 bs = Some (Inr (rs1, p', w'))"
    and rs: "rs = r # rs1"
    by (auto split: option.splits sum.splits prod.splits)
  have "r \<noteq> ZETTA_OK" using rs Cons.prems(3) by auto
  with Cons.prems(1) step have "no_frame_completed p1" by (rule no_frame_completed.parsing)
  moreover have "ZETTA_OK \<notin> set rs1" using rs Cons.prems(3) by auto
  ultimately show ?case using rest by (intro Cons.IH [of p1 w1 rs1]) 
qed

subsection \<open>A send followed by a receive\<close>

lemma feed_frame_rejected:
  assumes st: "rx_frame_state (internal p) = STATE_RX_WAIT_START"
    and gate: "pstate (internal p) \<noteq> ZETTA_STATE_RX_BUSY"
    and cap: "length (payload (frame (internal p))) = MAX_PAYLOAD_SIZE"
    and crcf: "computeCRC (interface p) = ComputeCRC_fn g"
    and hook: "OnError (interface p) = zetta_error_manager_fn"
    and ln: "length pl \<le> MAX_PAYLOAD_SIZE"
    and bad: "g (ty # of_nat (length pl) # pl) \<noteq> ucast c"
  shows "\<exists>p'. feed p w (wire_frame ty pl c) =
           Some (Inr (replicate (length pl + 5) ZETTA_ERROR, p',
                      w\<lparr>dbg_crc_val := g (ty # of_nat (length pl) # pl),
                        raised := raised w @ [ZETTA_ERROR_CRC_MISMATCH]\<rparr>)) \<and>
              payload_ready (internal p') = payload_ready (internal p) \<and>
              rx_frame_state (internal p') = STATE_RX_WAIT_START"
proof -
  let ?q = "awaiting_stop p ty pl c"
  note q = awaiting_stop_facts [OF cap ln, of ty c]
  let ?q' = "?q\<lparr>internal := (internal ?q)\<lparr>frame := (frame (internal ?q))\<lparr>stop := STOP_BYTE\<rparr>,
               error := ZETTA_ERROR_CRC_MISMATCH, rx_frame_state := STATE_RX_WAIT_START\<rparr>\<rparr>"
  have crcq: "computeCRC (interface ?q) = ComputeCRC_fn g" using q(3) crcf by simp
  have hookq: "OnError (interface ?q) = zetta_error_manager_fn" using q(3) hook by simp
  have badq: "g (type (frame (internal ?q)) # len (frame (internal ?q)) #
                  take (unat (len (frame (internal ?q)))) (payload (frame (internal ?q))))
               \<noteq> ucast (crc (frame (internal ?q)))"
    unfolding q(7) q(5) by (rule bad)
  have "zetta_ParseByte_body ?q STOP_BYTE w =
     Inr (ZETTA_ERROR, ?q',
          w\<lparr>dbg_crc_val := g (ty # of_nat (length pl) # pl),
            raised := raised w @ [ZETTA_ERROR_CRC_MISMATCH]\<rparr>)"
    using body_GET_STOP_mismatch [OF q(1) q(6) crcq badq hookq, of w] unfolding q(7) .
  then have last: "feed ?q w [STOP_BYTE] =
      Some (Inr ([ZETTA_ERROR], ?q',
            w\<lparr>dbg_crc_val := g (ty # of_nat (length pl) # pl),
              raised := raised w @ [ZETTA_ERROR_CRC_MISMATCH]\<rparr>))"
    using q gate by (simp add: zetta_ParseByte_free)
  have "feed p w ((START_BYTE # ty # of_nat (length pl) # pl @ [c]) @ [STOP_BYTE]) =
      Some (Inr (replicate (length pl + 4) ZETTA_ERROR @ [ZETTA_ERROR], ?q',
            w\<lparr>dbg_crc_val := g (ty # of_nat (length pl) # pl),
              raised := raised w @ [ZETTA_ERROR_CRC_MISMATCH]\<rparr>))"
    by (rule feed_append [OF feed_frame_prefix [OF st gate cap ln] last])
  moreover have "replicate (length pl + 4) ZETTA_ERROR @ [ZETTA_ERROR]
      = replicate (length pl + 5) ZETTA_ERROR"
    by (simp add: replicate_append_same numeral_eq_Suc)
  ultimately have "feed p w (wire_frame ty pl c) =
      Some (Inr (replicate (length pl + 5) ZETTA_ERROR, ?q',
            w\<lparr>dbg_crc_val := g (ty # of_nat (length pl) # pl),
              raised := raised w @ [ZETTA_ERROR_CRC_MISMATCH]\<rparr>))"
    by (simp add: wire_frame_def)
  moreover have "payload_ready (internal ?q') = payload_ready (internal p)"
    "rx_frame_state (internal ?q') = STATE_RX_WAIT_START"
    using q by simp_all
  ultimately show ?thesis by blast
qed

text \<open>What a send followed by feeding the sent bytes to a waiting receiver does, for any
  CRC function: the frame is accepted when the checksum fits one byte, and rejected with
  CrcMismatch when it does not.\<close>

lemma send_then_feed:
  assumes snd: "zetta_send tx ty pl (of_nat (length pl)) w = Some (Inr (r, tx', w'))"
    and tx: "length (payload (frame (internal tx))) = MAX_PAYLOAD_SIZE"
      "computeCRC (interface tx) = ComputeCRC_fn g" "send (interface tx) = Transmit_fn k"
    and rx: "rx_frame_state (internal rx) = STATE_RX_WAIT_START"
      "pstate (internal rx) \<noteq> ZETTA_STATE_RX_BUSY"
      "length (payload (frame (internal rx))) = MAX_PAYLOAD_SIZE"
      "computeCRC (interface rx) = ComputeCRC_fn g"
      "OnError (interface rx) = zetta_error_manager_fn"
    and ln: "length pl \<le> MAX_PAYLOAD_SIZE"
  shows "r = ZETTA_OK \<and>
         sent w' = sent w @
           [(Transmit_fn k, wire_frame ty pl (ucast (g (ty # of_nat (length pl) # pl))))] \<and>
         (unat (g (ty # of_nat (length pl) # pl)) < 256 \<longrightarrow>
            feed rx w' (wire_frame ty pl (ucast (g (ty # of_nat (length pl) # pl)))) =
              Some (Inr (replicate (length pl + 4) ZETTA_ERROR @ [ZETTA_OK],
                         received rx ty pl (ucast (g (ty # of_nat (length pl) # pl))), w'))) \<and>
         (\<not> unat (g (ty # of_nat (length pl) # pl)) < 256 \<longrightarrow>
            (\<exists>rx'. feed rx w' (wire_frame ty pl (ucast (g (ty # of_nat (length pl) # pl)))) =
                     Some (Inr (replicate (length pl + 5) ZETTA_ERROR, rx',
                                w'\<lparr>raised := raised w' @ [ZETTA_ERROR_CRC_MISMATCH]\<rparr>)) \<and>
                   payload_ready (internal rx') = payload_ready (internal rx)))"
proof -
  let ?x = "g (ty # of_nat (length pl) # pl)"
  let ?c = "ucast ?x :: uint8_t"
  let ?w' = "w\<lparr>tx_buf := wire_frame ty pl ?c @ replicate (25 - length pl) 0,
             buf_tx_size := 5 + of_nat (length pl),
             dbg_crc_val := ?x,
             sent := sent w @ [(Transmit_fn k, wire_frame ty pl ?c)]\<rparr>"
  from snd have "zetta_send_body tx ty pl (of_nat (length pl)) w = Inr (r, tx', w')"
    by (auto dest: zetta_send_SomeD)
  then have res: "r = ZETTA_OK" "w' = ?w'"
    using tx ln by (simp_all add: zetta_send_body_OK)
  have dbg: "w'\<lparr>dbg_crc_val := ?x\<rparr> = w'" unfolding res(2) by simp
  have fits: "(unat ?x < 256) = (?x = ucast ?c)"
  proof -
    have "unat (ucast ?c :: uint32_t) = unat ?x mod 256"
      by (simp add: unsigned_ucast_eq take_bit_eq_mod unat_mod)
    then show ?thesis
      by (metis mod_less mod_less_divisor word_unat_eq_iff zero_less_numeral)
  qed
  have good: "feed rx w' (wire_frame ty pl ?c) =
       Some (Inr (replicate (length pl + 4) ZETTA_ERROR @ [ZETTA_OK], received rx ty pl ?c, w'))"
    if "unat ?x < 256"
  proof -
    from that have ok: "?x = ucast ?c" using fits by simp
    have "feed rx w' (wire_frame ty pl ?c) =
       Some (Inr (replicate (length pl + 4) ZETTA_ERROR @ [ZETTA_OK],
                  received rx ty pl ?c, w'\<lparr>dbg_crc_val := ucast ?c\<rparr>))"
      unfolding wire_frame_def using rx ln ok by (intro feed_valid_frame [where g = g]) simp_all
    then show ?thesis using ok dbg by simp
  qed
  have bad: "\<exists>rx'. feed rx w' (wire_frame ty pl ?c) =
                     Some (Inr (replicate (length pl + 5) ZETTA_ERROR, rx',
                                w'\<lparr>raised := raised w' @ [ZETTA_ERROR_CRC_MISMATCH]\<rparr>)) \<and>
                   payload_ready (internal rx') = payload_ready (internal rx)"
    if "\<not> unat ?x < 256"
  proof -
    from that have ne: "?x \<noteq> ucast ?c" using fits by simp
    from feed_frame_rejected [OF rx(1,2,3,4,5) ln ne, of w']
    show ?thesis unfolding dbg by blast
  qed
  have "sent w' = sent w @ [(Transmit_fn k, wire_frame ty pl ?c)]"
    unfolding res(2) by simp
  then show ?thesis using res(1) good bad by blast
qed

subsection \<open>Runs of the concrete instances\<close>

lemmas eval_rx = zetta_ParseByte_free zetta_ParseByte_body_def Let_def rx_state_defs
  START_BYTE_def STOP_BYTE_def MAX_PAYLOAD_SIZE_def zetta_check_type_def zetta_compute_crc_def
  signal_rx_error_def call_OnError_def zetta_error_manager_def zetta_init_eq zero_frame_def
  eval_list

lemma ex_frame1:
  "feed ex_sum0 ex_world [0xAA, 1, 1, 5, 7, 0xBC] =
     Some (Inr ([ZETTA_ERROR, ZETTA_ERROR, ZETTA_ERROR, ZETTA_ERROR, ZETTA_ERROR, ZETTA_OK],
                ex_rx1, ex_world\<lparr>dbg_crc_val := 7\<rparr>))"
  by (simp add: eval_rx ex_sum0_def ex_rx1_def ex_iface_sum_def crc_sum_def ex_world_def)

lemma ex_frame2:
  "feed ex_rx1 (ex_world\<lparr>dbg_crc_val := 7\<rparr>) [0xAA, 2, 1, 9, 0, 0xBC] =
     Some (Inr ([ZETTA_ERROR, ZETTA_ERROR, ZETTA_ERROR, ZETTA_ERROR, ZETTA_ERROR, ZETTA_ERROR],
                ex_rx2,
                ex_world\<lparr>dbg_crc_val := 12, raised := [ZETTA_ERROR_CRC_MISMATCH]\<rparr>))"
  by (simp add: eval_rx ex_sum0_def ex_rx1_def ex_rx2_def ex_iface_sum_def crc_sum_def ex_world_def)

lemma ex_wide_send:
  "zetta_send ex_wide0 1 [1, 2] 2 ex_world = Some (Inr (ZETTA_OK, ex_wide_tx1, ex_wide_world1))"
  by (simp add: zetta_send_free zetta_send_body_def Let_def MAX_PAYLOAD_SIZE_def ex_world_def
      memcpy_def zero_frame_def zetta_compute_crc_def ex_iface_wide_def crc_wide_def
      START_BYTE_def STOP_BYTE_def ex_wide_tx1_def ex_wide_world1_def ex_wide0_def
      zetta_init_eq eval_list)

lemma ex_wide_feed6:
  "feed ex_wide0 ex_wide_world1 [0xAA, 1, 2, 1, 2, 0x06] =
     Some (Inr ([ZETTA_ERROR, ZETTA_ERROR, ZETTA_ERROR, ZETTA_ERROR, ZETTA_ERROR, ZETTA_ERROR],
                ex_wide_stop, ex_wide_world1))"
  by (simp add: eval_rx ex_wide0_def ex_wide_stop_def ex_iface_wide_def crc_wide_def)

lemma ex_wide_last:
  "zetta_ParseByte ex_wide_stop 0xBC ex_wide_world1 =
     Some (Inr (ZETTA_ERROR, ex_wide_end,
                ex_wide_world1\<lparr>raised := [ZETTA_ERROR_CRC_MISMATCH]\<rparr>))"
  by (simp add: eval_rx ex_wide0_def ex_wide_stop_def ex_wide_end_def ex_iface_wide_def
      crc_wide_def ex_wide_world1_def)

lemma ex_get_len_feed:
  "feed ex_sum0 ex_world [0xAA, 1] = Some (Inr ([ZETTA_ERROR, ZETTA_ERROR], ex_get_len, ex_world))"
  by (simp add: eval_rx ex_sum0_def ex_get_len_def)

lemma ex_get_len_reachable: "reachable ex_get_len"
proof -
  have "reachable ex_sum0" unfolding ex_sum0_def by (rule reachable.init)
  then show ?thesis using ex_get_len_feed by (rule feed_reachable)
qed

lemma ex_stray:
  "zetta_ParseByte ex_sum0 0 ex_world =
     Some (Inr (ZETTA_ERROR, ex_after_stray,
                ex_world\<lparr>raised := [ZETTA_ERROR_INVALID_START]\<rparr>))"
  by (simp add: eval_rx ex_sum0_def ex_after_stray_def ex_world_def)

lemma ex_send:
  "zetta_send ex_sum0 1 [1, 2] 2 ex_world = Some (Inr (ZETTA_OK, ex_tx1, ex_world1))"
  by (simp add: zetta_send_free zetta_send_body_def Let_def MAX_PAYLOAD_SIZE_def ex_world_def
      memcpy_def zero_frame_def zetta_compute_crc_def ex_iface_sum_def crc_sum_def
      START_BYTE_def STOP_BYTE_def ex_tx1_def ex_world1_def ex_sum0_def zetta_init_eq eval_list)

lemma ex_rx1_stray:
  "zetta_ParseByte ex_rx1 0 (ex_world\<lparr>dbg_crc_val := 7\<rparr>) =
     Some (Inr (ZETTA_ERROR,
                ex_rx1\<lparr>internal := (internal ex_rx1)\<lparr>error := ZETTA_ERROR_INVALID_START\<rparr>\<rparr>,
                ex_world\<lparr>dbg_crc_val := 7, raised := [ZETTA_ERROR_INVALID_START]\<rparr>))"
  by (simp add: eval_rx ex_sum0_def ex_rx1_def ex_world_def)

lemma ex_rx1_send_too_large:
  "zetta_send ex_rx1 1 [] 26 ex_world =
     Some (Inr (ZETTA_ERROR_PAYLOAD_TOO_LARGE, ex_rx1,
                ex_world\<lparr>raised := [ZETTA_ERROR_PAYLOAD_TOO_LARGE]\<rparr>))"
  by (simp add: zetta_send_free zetta_send_body_def call_OnError_def zetta_error_manager_def
      Let_def MAX_PAYLOAD_SIZE_def ex_rx1_def ex_sum0_def zetta_init_eq ex_world_def
      rx_state_defs)

lemma ex_stray_feed:
  "feed (zetta_init zero_Zetta ex_iface_sum) ex_world [0] =
     Some (Inr ([ZETTA_ERROR], ex_after_stray, ex_world\<lparr>raised := [ZETTA_ERROR_INVALID_START]\<rparr>))"
  using ex_stray by (simp add: ex_sum0_def)

lemma ex_tx1_reachable: "reachable ex_tx1"
proof -
  have "reachable ex_sum0" unfolding ex_sum0_def by (rule reachable.init)
  then show ?thesis using ex_send by (rule reachable.sending)
qed

lemma ex_sum_stop_feed:
  "feed ex_sum0 ex_world [0xAA, 2, 1, 9, 0] =
     Some (Inr ([ZETTA_ERROR, ZETTA_ERROR, ZETTA_ERROR, ZETTA_ERROR, ZETTA_ERROR],
                ex_sum_stop, ex_world))"
  by (simp add: eval_rx ex_sum0_def ex_sum_stop_def ex_iface_sum_def)

lemma ex_sum_rejected_feed:
  "feed ex_sum0 ex_world [0xAA, 2, 1, 9, 0, 0xBC] =
     Some (Inr ([ZETTA_ERROR, ZETTA_ERROR, ZETTA_ERROR, ZETTA_ERROR, ZETTA_ERROR, ZETTA_ERROR],
                ex_sum_rejected,
                ex_world\<lparr>dbg_crc_val := 12, raised := [ZETTA_ERROR_CRC_MISMATCH]\<rparr>))"
  by (simp add: eval_rx ex_sum0_def ex_sum_rejected_def ex_iface_sum_def crc_sum_def ex_world_def)

lemma ex_wide_stop_reachable: "reachable ex_wide_stop"
proof -
  have "reachable ex_wide0" unfolding ex_wide0_def by (rule reachable.init)
  then show ?thesis using ex_wide_feed6 by (rule feed_reachable)
qed

lemma ex_tx1_no_frame: "no_frame_completed ex_tx1"
proof -
  have "no_frame_completed ex_sum0" unfolding ex_sum0_def by (rule no_frame_completed.init)
  then show ?thesis using ex_send by (rule no_frame_completed.sending)
qed

lemma ex_sum_rejected_no_frame: "no_frame_completed ex_sum_rejected"
proof -
  have "no_frame_completed ex_sum0" unfolding ex_sum0_def by (rule no_frame_completed.init)
  then show ?thesis using ex_sum_rejected_feed by (rule feed_no_frame_completed_pred) simp
qed

section \<open>The claims\<close>

subsection \<open>C1: round trip through the wire\<close>

text \<open>C1 says that for every injected CRC function a frame built by \<open>zetta_send\<close>
  and fed byte by byte to a freshly initialised instance is accepted. With the CRC
  function \<open>crc_wide\<close>, whose value 0x12345606 on this frame does not fit one byte, the
  sender puts the low byte 0x06 on the wire, and the receiver compares the full 32-bit value with
  that byte: the last call returns \<open>ZETTA_ERROR\<close>, the error hook is called with
  \<open>ZETTA_ERROR_CRC_MISMATCH\<close>, and the payload-ready flag stays 0.\<close>

theorem C1_roundtrip_fails_for_wide_crc:
  "zetta_send ex_wide0 1 [1, 2] 2 ex_world = Some (Inr (ZETTA_OK, ex_wide_tx1, ex_wide_world1)) \<and>
   sent ex_wide_world1 = [(Transmit_fn 0, [0xAA, 1, 2, 1, 2, 0x06, 0xBC])] \<and>
   feed ex_wide0 ex_wide_world1 [0xAA, 1, 2, 1, 2, 0x06, 0xBC] =
     Some (Inr ([ZETTA_ERROR, ZETTA_ERROR, ZETTA_ERROR, ZETTA_ERROR, ZETTA_ERROR,
                 ZETTA_ERROR, ZETTA_ERROR],
                ex_wide_end, ex_wide_world1\<lparr>raised := [ZETTA_ERROR_CRC_MISMATCH]\<rparr>)) \<and>
   payload_ready (internal ex_wide_end) = 0"
proof -
  have "feed ex_wide_stop ex_wide_world1 [0xBC] =
     Some (Inr ([ZETTA_ERROR], ex_wide_end, ex_wide_world1\<lparr>raised := [ZETTA_ERROR_CRC_MISMATCH]\<rparr>))"
    using ex_wide_last by simp
  from feed_append [OF ex_wide_feed6 this]
  have "feed ex_wide0 ex_wide_world1 [0xAA, 1, 2, 1, 2, 0x06, 0xBC] =
     Some (Inr ([ZETTA_ERROR, ZETTA_ERROR, ZETTA_ERROR, ZETTA_ERROR, ZETTA_ERROR,
                 ZETTA_ERROR, ZETTA_ERROR],
                ex_wide_end, ex_wide_world1\<lparr>raised := [ZETTA_ERROR_CRC_MISMATCH]\<rparr>))"
    by simp
  then show ?thesis
    using ex_wide_send by (simp add: ex_wide_world1_def ex_wide_end_def)
qed

subsection \<open>C2: the integrity check at frame completion\<close>

text \<open>C2 says that at GET_STOP with a valid stop byte the frame is accepted exactly when
  the computed checksum truncated to 8 bits equals the received crc byte. In
  \<open>ex_wide_stop\<close> the checksum of type, len and payload truncated to 8 bits is 0x06,
  which is the received crc byte, and the stop byte is valid; the frame is rejected
  with \<open>ZETTA_ERROR_CRC_MISMATCH\<close>, because the code compares the untruncated
  checksum.\<close>

theorem C2_truncated_crc_matches_but_frame_rejected:
  "rx_frame_state (internal ex_wide_stop) = STATE_RX_GET_STOP \<and>
   type (frame (internal ex_wide_stop)) # len (frame (internal ex_wide_stop)) #
     take (unat (len (frame (internal ex_wide_stop)))) (payload (frame (internal ex_wide_stop)))
     = [1, 2, 1, 2] \<and>
   (ucast (crc_wide [1, 2, 1, 2]) :: uint8_t) = crc (frame (internal ex_wide_stop)) \<and>
   zetta_ParseByte ex_wide_stop STOP_BYTE ex_wide_world1 =
     Some (Inr (ZETTA_ERROR, ex_wide_end,
                ex_wide_world1\<lparr>raised := [ZETTA_ERROR_CRC_MISMATCH]\<rparr>)) \<and>
   payload_ready (internal ex_wide_end) = 0"
  using ex_wide_last
  by (simp add: ex_wide_stop_def ex_wide_end_def crc_wide_def STOP_BYTE_def rx_state_defs)

subsection \<open>C3: the byte feed and the protocol gate\<close>

text \<open>C3, as stated, says that \<open>zetta_ParseByte\<close> terminates for every value of
  \<open>pstate\<close>. The instance \<open>ex_rx_busy\<close> has \<open>pstate = ZETTA_STATE_RX_BUSY\<close>: the
  empty busy-wait loop at the head of the function never exits, so the call does not
  return.\<close>

theorem C3_counterexample_RX_BUSY_never_returns:
  "zetta_ParseByte ex_rx_busy START_BYTE ex_world = None"
  by (rule zetta_ParseByte_hangs) (simp add: ex_rx_busy_def)

text \<open>C3, amended: \<open>zetta_ParseByte\<close> fails to return exactly when the protocol gate
  reads \<open>ZETTA_STATE_RX_BUSY\<close>. In every other instance state whose error hook is not
  null, whose payload index lies within the payload array while a payload byte is
  awaited, and whose CRC function is not null and stored length within the array when
  the stop byte arrives, the call returns \<open>ZETTA_OK\<close> or \<open>ZETTA_ERROR\<close> with the new
  state, after one pass through the switch, which has no loop. These conditions hold
  of every instance reachable from \<open>zetta_init\<close> whose CRC function is not null.\<close>

theorem C3_ParseByte_returns_unless_RX_BUSY:
  "((zetta_ParseByte packet byte w = None) = (pstate (internal packet) = ZETTA_STATE_RX_BUSY)) \<and>
   (pstate (internal packet) \<noteq> ZETTA_STATE_RX_BUSY \<and>
    OnError (interface packet) \<noteq> NULL_HandleError \<and>
    (rx_frame_state (internal packet) = STATE_RX_GET_PAYLOAD \<longrightarrow>
       unat (index (internal packet)) < length (payload (frame (internal packet)))) \<and>
    (rx_frame_state (internal packet) = STATE_RX_GET_STOP \<and> byte = STOP_BYTE \<longrightarrow>
       computeCRC (interface packet) \<noteq> NULL_ZettaComputeCRC \<and>
       unat (len (frame (internal packet))) \<le> length (payload (frame (internal packet)))) \<longrightarrow>
      (\<exists>r packet' w'. zetta_ParseByte packet byte w = Some (Inr (r, packet', w')) \<and>
         (r = ZETTA_OK \<or> r = ZETTA_ERROR))) \<and>
   (reachable packet \<and> computeCRC (interface packet) \<noteq> NULL_ZettaComputeCRC \<longrightarrow>
      (\<exists>r packet' w'. zetta_ParseByte packet byte w = Some (Inr (r, packet', w')) \<and>
         (r = ZETTA_OK \<or> r = ZETTA_ERROR)))"
proof -
  have blocks: "(zetta_ParseByte packet byte w = None) =
      (pstate (internal packet) = ZETTA_STATE_RX_BUSY)"
    by (cases "pstate (internal packet) = ZETTA_STATE_RX_BUSY")
       (simp_all add: zetta_ParseByte_free zetta_ParseByte_hangs)
  have returns: "\<exists>r packet' w'. zetta_ParseByte packet byte w = Some (Inr (r, packet', w')) \<and>
         (r = ZETTA_OK \<or> r = ZETTA_ERROR)"
    if "pstate (internal packet) \<noteq> ZETTA_STATE_RX_BUSY"
      "OnError (interface packet) \<noteq> NULL_HandleError"
      "rx_frame_state (internal packet) = STATE_RX_GET_PAYLOAD \<longrightarrow>
         unat (index (internal packet)) < length (payload (frame (internal packet)))"
      "rx_frame_state (internal packet) = STATE_RX_GET_STOP \<and> byte = STOP_BYTE \<longrightarrow>
         computeCRC (interface packet) \<noteq> NULL_ZettaComputeCRC \<and>
         unat (len (frame (internal packet))) \<le> length (payload (frame (internal packet)))"
    using body_returns [OF that(2,3,4), of w] that(1) by (simp add: zetta_ParseByte_free)
  have reach: "\<exists>r packet' w'. zetta_ParseByte packet byte w = Some (Inr (r, packet', w')) \<and>
         (r = ZETTA_OK \<or> r = ZETTA_ERROR)"
    if r: "reachable packet" and c: "computeCRC (interface packet) \<noteq> NULL_ZettaComputeCRC"
  proof -
    have inv: "instance_inv packet" using r by (rule reachable_instance_inv)
    show ?thesis
      using inv c by (intro returns) (simp_all add: instance_inv_def)
  qed
  show ?thesis using blocks returns reach by blast
qed

text \<open>C3, amended, at the receiver \<open>ex_wide_stop\<close> on its stop byte, where the call goes
  through the CRC function and the error hook, and at \<open>ex_rx_busy\<close>, where it does
  not return.\<close>

theorem C3_witness:
  "pstate (internal ex_wide_stop) \<noteq> ZETTA_STATE_RX_BUSY \<and>
   OnError (interface ex_wide_stop) \<noteq> NULL_HandleError \<and>
   rx_frame_state (internal ex_wide_stop) = STATE_RX_GET_STOP \<and>
   computeCRC (interface ex_wide_stop) \<noteq> NULL_ZettaComputeCRC \<and>
   unat (len (frame (internal ex_wide_stop))) \<le> length (payload (frame (internal ex_wide_stop))) \<and>
   reachable ex_wide_stop \<and>
   (\<exists>r packet' w'. zetta_ParseByte ex_wide_stop STOP_BYTE ex_wide_world1 = Some (Inr (r, packet', w'))
      \<and> (r = ZETTA_OK \<or> r = ZETTA_ERROR)) \<and>
   pstate (internal ex_rx_busy) = ZETTA_STATE_RX_BUSY \<and>
   zetta_ParseByte ex_rx_busy STOP_BYTE ex_wide_world1 = None"
proof -
  have a: "pstate (internal ex_wide_stop) \<noteq> ZETTA_STATE_RX_BUSY"
    "OnError (interface ex_wide_stop) \<noteq> NULL_HandleError"
    "rx_frame_state (internal ex_wide_stop) = STATE_RX_GET_STOP"
    "computeCRC (interface ex_wide_stop) \<noteq> NULL_ZettaComputeCRC"
    "unat (len (frame (internal ex_wide_stop))) \<le> length (payload (frame (internal ex_wide_stop)))"
    by (simp_all add: ex_wide_stop_def ex_wide0_def zetta_init_eq ex_iface_wide_def)
  have b: "pstate (internal ex_rx_busy) = ZETTA_STATE_RX_BUSY"
    by (simp add: ex_rx_busy_def)
  show ?thesis
    using C3_ParseByte_returns_unless_RX_BUSY [of ex_wide_stop STOP_BYTE ex_wide_world1]
      C3_ParseByte_returns_unless_RX_BUSY [of ex_rx_busy STOP_BYTE ex_wide_world1]
      a b ex_wide_stop_reachable
    by (simp add: rx_state_defs)
qed

subsection \<open>C4: initialisation\<close>

text \<open>C4, as stated, says that callbacks and an error handler supplied by the caller
  stay installed. \<open>ex_iface_user\<close> supplies all three (none is null); after
  \<open>zetta_init\<close> none of the three installed pointers is the caller's.\<close>

theorem C4_counterexample_supplied_callbacks_replaced:
  "rxCpltClbk ex_iface_user \<noteq> NULL_ZettaReceiveCpltClbk \<and>
   txCpltClbk ex_iface_user \<noteq> NULL_ZettaTransmitCpltClbk \<and>
   OnError ex_iface_user \<noteq> NULL_HandleError \<and>
   rxCpltClbk (interface (zetta_init zero_Zetta ex_iface_user)) \<noteq> rxCpltClbk ex_iface_user \<and>
   txCpltClbk (interface (zetta_init zero_Zetta ex_iface_user)) \<noteq> txCpltClbk ex_iface_user \<and>
   OnError (interface (zetta_init zero_Zetta ex_iface_user)) \<noteq> OnError ex_iface_user"
  by (simp add: zetta_init_eq ex_iface_user_def)

text \<open>C4, amended: \<open>zetta_init\<close> installs the library's completion callbacks and
  error handler whatever the caller supplied, keeps the caller's \<open>send\<close>, \<open>receive\<close>
  and \<open>computeCRC\<close>, and leaves the internal state with index, frame, last byte time
  and payload-ready flag zero, the receive state machine in \<open>STATE_RX_WAIT_START\<close>,
  the error field \<open>ZETTA_OK\<close> and the single gate field \<open>pstate\<close> at
  \<open>ZETTA_STATE_RX_READY\<close>, which is neither of the two values the busy-waits test.\<close>

theorem C4_init_installs_defaults_unconditionally:
  "rxCpltClbk (interface (zetta_init packet iface)) = zetta_recieve_cplt_clb_fn \<and>
   txCpltClbk (interface (zetta_init packet iface)) = zetta_transmit_cplt_clb_fn \<and>
   OnError (interface (zetta_init packet iface)) = zetta_error_manager_fn \<and>
   send (interface (zetta_init packet iface)) = send iface \<and>
   receive (interface (zetta_init packet iface)) = receive iface \<and>
   computeCRC (interface (zetta_init packet iface)) = computeCRC iface \<and>
   internal (zetta_init packet iface) =
     \<lparr>pstate = ZETTA_STATE_RX_READY, index = 0, frame = zero_frame, last_byte_time = 0,
      error = ZETTA_OK, rx_frame_state = STATE_RX_WAIT_START, payload_ready = 0\<rparr> \<and>
   pstate (internal (zetta_init packet iface)) \<noteq> ZETTA_STATE_TX_BUSY \<and>
   pstate (internal (zetta_init packet iface)) \<noteq> ZETTA_STATE_RX_BUSY"
  by (simp add: zetta_init_eq)

subsection \<open>C5: sending a payload that is too large\<close>

text \<open>C5, as stated, says that for every \<open>len\<close> above \<open>MAX_PAYLOAD_SIZE\<close>
  \<open>zetta_send\<close> returns \<open>ZETTA_ERROR_PAYLOAD_TOO_LARGE\<close>. The instance \<open>ex_tx1\<close> is
  an initialised instance after one successful send, so its gate reads
  \<open>ZETTA_STATE_TX_BUSY\<close>; the busy-wait comes before the length test, and a send of
  length 26 on it does not return.\<close>

theorem C5_counterexample_gate_held_never_returns:
  "reachable ex_tx1 \<and> unat (26 :: uint8_t) > MAX_PAYLOAD_SIZE \<and>
   zetta_send ex_tx1 1 [] 26 ex_world1 = None"
  using ex_tx1_reachable
  by (simp add: zetta_send_hangs ex_tx1_def MAX_PAYLOAD_SIZE_def)

text \<open>C5, amended: for every \<open>len\<close> above \<open>MAX_PAYLOAD_SIZE\<close>, \<open>zetta_send\<close> on an
  instance whose gate reads \<open>ZETTA_STATE_TX_BUSY\<close> does not return; on an instance with
  the gate open and an error hook installed it returns
  \<open>ZETTA_ERROR_PAYLOAD_TOO_LARGE\<close> after calling the hook with that code once, and the
  environment is otherwise as before the call: no transport call is added to the
  trace and \<open>tx_buf\<close> and \<open>buf_tx_size\<close> are untouched (with the library's hook the
  only change to the instance is that the receive state machine is set to WAIT_START);
  with the gate open and a null hook the call is a call through a null pointer. In no
  case is the transport's send function called.\<close>

theorem C5_send_too_large:
  assumes "unat ln > MAX_PAYLOAD_SIZE"
  shows "(pstate (internal packet) = ZETTA_STATE_TX_BUSY \<longrightarrow>
            zetta_send packet ty pData ln w = None) \<and>
         (pstate (internal packet) \<noteq> ZETTA_STATE_TX_BUSY \<and>
          OnError (interface packet) = NULL_HandleError \<longrightarrow>
            zetta_send packet ty pData ln w = Some (Inl NullCall)) \<and>
         (pstate (internal packet) \<noteq> ZETTA_STATE_TX_BUSY \<and>
          OnError (interface packet) \<noteq> NULL_HandleError \<longrightarrow>
            (\<exists>packet'. zetta_send packet ty pData ln w =
               Some (Inr (ZETTA_ERROR_PAYLOAD_TOO_LARGE, packet',
                          w\<lparr>raised := raised w @ [ZETTA_ERROR_PAYLOAD_TOO_LARGE]\<rparr>)) \<and>
             (OnError (interface packet) = zetta_error_manager_fn \<longrightarrow>
                packet' = packet\<lparr>internal := (internal packet)\<lparr>rx_frame_state :=
                            STATE_RX_WAIT_START\<rparr>\<rparr>)))"
proof -
  have busy: "zetta_send packet ty pData ln w = None"
    if "pstate (internal packet) = ZETTA_STATE_TX_BUSY"
    using that by (rule zetta_send_hangs)
  have null: "zetta_send packet ty pData ln w = Some (Inl NullCall)"
    if "pstate (internal packet) \<noteq> ZETTA_STATE_TX_BUSY"
      "OnError (interface packet) = NULL_HandleError"
    using that assms by (simp add: zetta_send_free zetta_send_body_def call_OnError_def)
  have ok: "\<exists>packet'. zetta_send packet ty pData ln w =
               Some (Inr (ZETTA_ERROR_PAYLOAD_TOO_LARGE, packet',
                          w\<lparr>raised := raised w @ [ZETTA_ERROR_PAYLOAD_TOO_LARGE]\<rparr>)) \<and>
             (OnError (interface packet) = zetta_error_manager_fn \<longrightarrow>
                packet' = packet\<lparr>internal := (internal packet)\<lparr>rx_frame_state :=
                            STATE_RX_WAIT_START\<rparr>\<rparr>)"
    if gate: "pstate (internal packet) \<noteq> ZETTA_STATE_TX_BUSY"
      and hook: "OnError (interface packet) \<noteq> NULL_HandleError"
  proof -
    obtain p' where p': "call_OnError packet ZETTA_ERROR_PAYLOAD_TOO_LARGE w =
        Inr (p', w\<lparr>raised := raised w @ [ZETTA_ERROR_PAYLOAD_TOO_LARGE]\<rparr>)"
      using call_OnError_nonnull [OF hook, of ZETTA_ERROR_PAYLOAD_TOO_LARGE w] by auto
    have "zetta_send packet ty pData ln w =
             Some (Inr (ZETTA_ERROR_PAYLOAD_TOO_LARGE, p',
                        w\<lparr>raised := raised w @ [ZETTA_ERROR_PAYLOAD_TOO_LARGE]\<rparr>))"
      using assms gate p' by (simp add: zetta_send_free zetta_send_body_def)
    moreover have "OnError (interface packet) = zetta_error_manager_fn \<longrightarrow>
        p' = packet\<lparr>internal := (internal packet)\<lparr>rx_frame_state := STATE_RX_WAIT_START\<rparr>\<rparr>"
      using p' by (auto simp: call_OnError_default)
    ultimately show ?thesis by blast
  qed
  show ?thesis using busy null ok by blast
qed

text \<open>C5, amended, with \<open>len = 26\<close>: at the initialised instance \<open>ex_sum0\<close>, at
  \<open>ex_tx1\<close> whose gate is held, and at \<open>ex_no_hook\<close>.\<close>

theorem C5_witness:
  "unat (26 :: uint8_t) > MAX_PAYLOAD_SIZE \<and>
   pstate (internal ex_sum0) \<noteq> ZETTA_STATE_TX_BUSY \<and>
   OnError (interface ex_sum0) = zetta_error_manager_fn \<and>
   zetta_send ex_sum0 1 [] 26 ex_world =
     Some (Inr (ZETTA_ERROR_PAYLOAD_TOO_LARGE,
                ex_sum0\<lparr>internal := (internal ex_sum0)\<lparr>rx_frame_state := STATE_RX_WAIT_START\<rparr>\<rparr>,
                ex_world\<lparr>raised := raised ex_world @ [ZETTA_ERROR_PAYLOAD_TOO_LARGE]\<rparr>)) \<and>
   pstate (internal ex_tx1) = ZETTA_STATE_TX_BUSY \<and>
   zetta_send ex_tx1 1 [] 26 ex_world1 = None \<and>
   pstate (internal ex_no_hook) \<noteq> ZETTA_STATE_TX_BUSY \<and>
   OnError (interface ex_no_hook) = NULL_HandleError \<and>
   zetta_send ex_no_hook 1 [] 26 ex_world = Some (Inl NullCall)"
proof -
  have a: "unat (26 :: uint8_t) > MAX_PAYLOAD_SIZE" by (simp add: MAX_PAYLOAD_SIZE_def)
  have b: "pstate (internal ex_sum0) \<noteq> ZETTA_STATE_TX_BUSY"
    "OnError (interface ex_sum0) = zetta_error_manager_fn"
    by (simp_all add: ex_sum0_def zetta_init_eq)
  have c: "pstate (internal ex_tx1) = ZETTA_STATE_TX_BUSY"
    by (simp add: ex_tx1_def)
  have d: "pstate (internal ex_no_hook) \<noteq> ZETTA_STATE_TX_BUSY"
    "OnError (interface ex_no_hook) = NULL_HandleError"
    by (simp_all add: ex_no_hook_def zero_Zetta_def)
  show ?thesis
    using C5_send_too_large [OF a, of ex_sum0 1 "[]" ex_world]
      C5_send_too_large [OF a, of ex_tx1 1 "[]" ex_world1]
      C5_send_too_large [OF a, of ex_no_hook 1 "[]" ex_world]
      a b c d
    by auto
qed

subsection \<open>C6: the stored length never exceeds the payload capacity\<close>

text \<open>C6: in every instance reachable from an initialised one by calls that return
  (sends, byte feeds, completion callbacks) the stored frame length is at most
  \<open>MAX_PAYLOAD_SIZE\<close>. A length byte above the bound is not stored: the call that
  reads it returns \<open>ZETTA_ERROR\<close>, leaves frame and payload-ready flag as they were,
  and puts the state machine back to WAIT_START. A call returns \<open>ZETTA_OK\<close> only in
  GET_STOP, for the stored length, which is within the bound.\<close>

theorem C6_len_bound:
  assumes "reachable p"
  shows "unat (len (frame (internal p))) \<le> MAX_PAYLOAD_SIZE \<and>
         (rx_frame_state (internal p) = STATE_RX_GET_LEN \<and> unat b > MAX_PAYLOAD_SIZE \<longrightarrow>
            zetta_ParseByte p b w =
              Some (Inr (ZETTA_ERROR,
                p\<lparr>internal := (internal p)\<lparr>error := ZETTA_ERROR_PAYLOAD_TOO_LARGE,
                     rx_frame_state := STATE_RX_WAIT_START\<rparr>\<rparr>,
                w\<lparr>raised := raised w @ [ZETTA_ERROR_PAYLOAD_TOO_LARGE]\<rparr>))) \<and>
         (zetta_ParseByte p b w = Some (Inr (ZETTA_OK, p', w')) \<longrightarrow>
            rx_frame_state (internal p) = STATE_RX_GET_STOP \<and>
            len (frame (internal p')) = len (frame (internal p)) \<and>
            unat (len (frame (internal p'))) \<le> MAX_PAYLOAD_SIZE)"
proof -
  have inv: "instance_inv p" using assms by (rule reachable_instance_inv)
  then have a: "unat (len (frame (internal p))) \<le> MAX_PAYLOAD_SIZE"
    by (simp add: instance_inv_def)
  have b: "rx_frame_state (internal p) = STATE_RX_GET_LEN \<and> unat b > MAX_PAYLOAD_SIZE \<longrightarrow>
            zetta_ParseByte p b w =
              Some (Inr (ZETTA_ERROR,
                p\<lparr>internal := (internal p)\<lparr>error := ZETTA_ERROR_PAYLOAD_TOO_LARGE,
                     rx_frame_state := STATE_RX_WAIT_START\<rparr>\<rparr>,
                w\<lparr>raised := raised w @ [ZETTA_ERROR_PAYLOAD_TOO_LARGE]\<rparr>))"
    using inv by (simp add: instance_inv_def zetta_ParseByte_free body_GET_LEN_too_large)
  have c: "rx_frame_state (internal p) = STATE_RX_GET_STOP \<and>
           len (frame (internal p')) = len (frame (internal p))"
    if run: "zetta_ParseByte p b w = Some (Inr (ZETTA_OK, p', w'))"
  proof -
    have hook: "OnError (interface p) = zetta_error_manager_fn"
      using inv by (simp add: instance_inv_def)
    have body: "zetta_ParseByte_body p b w = Inr (ZETTA_OK, p', w')"
      using run by (auto dest: zetta_ParseByte_SomeD)
    show ?thesis
    proof (cases "rx_frame_state (internal p)" rule: rx_state_cases)
      case ws
      then show ?thesis using body hook
        by (cases "b = START_BYTE")
           (auto simp: body_WAIT_START_start body_WAIT_START_other)
    next
      case ty
      then show ?thesis using body by (auto simp: body_GET_TYPE)
    next
      case ln
      then show ?thesis using body hook
        by (cases "unat b \<le> MAX_PAYLOAD_SIZE")
           (auto simp: body_GET_LEN_ok body_GET_LEN_too_large)
    next
      case pl
      then show ?thesis using body
        by (auto simp: zetta_ParseByte_body_def Let_def rx_state_defs split: if_splits)
    next
      case cr
      then show ?thesis using body by (auto simp: body_GET_CRC)
    next
      case st
      then show ?thesis using body hook
        by (auto simp: zetta_ParseByte_body_def Let_def rx_state_defs signal_rx_error_default
            zetta_compute_crc_def
            split: if_splits sum.splits prod.splits ZettaComputeCRC.splits)
    next
      case other
      then show ?thesis using body hook by (auto simp: body_invalid_state)
    qed
  qed
  show ?thesis using a b c by auto
qed

text \<open>C6 at the reachable instance \<open>ex_get_len\<close> and the length byte 26.\<close>

theorem C6_witness:
  "reachable ex_get_len \<and>
   unat (len (frame (internal ex_get_len))) \<le> MAX_PAYLOAD_SIZE \<and>
   rx_frame_state (internal ex_get_len) = STATE_RX_GET_LEN \<and>
   unat (26 :: uint8_t) > MAX_PAYLOAD_SIZE \<and>
   zetta_ParseByte ex_get_len 26 ex_world =
     Some (Inr (ZETTA_ERROR,
       ex_get_len\<lparr>internal := (internal ex_get_len)\<lparr>error := ZETTA_ERROR_PAYLOAD_TOO_LARGE,
          rx_frame_state := STATE_RX_WAIT_START\<rparr>\<rparr>,
       ex_world\<lparr>raised := raised ex_world @ [ZETTA_ERROR_PAYLOAD_TOO_LARGE]\<rparr>))"
proof -
  have st: "rx_frame_state (internal ex_get_len) = STATE_RX_GET_LEN"
    by (simp add: ex_get_len_def)
  have big: "unat (26 :: uint8_t) > MAX_PAYLOAD_SIZE"
    by (simp add: MAX_PAYLOAD_SIZE_def)
  show ?thesis
    using C6_len_bound [OF ex_get_len_reachable, of 26 ex_world] st big ex_get_len_reachable
    by simp
qed

subsection \<open>C7: receive errors go to the hook and the state machine recovers\<close>

text \<open>C7: with the library's error hook installed and the gate not busy, every receive
  error is detected, stored, handed to the hook and answered with \<open>ZETTA_ERROR\<close> in
  one returning call that leaves the state machine in WAIT_START: a byte other than the
  start byte in WAIT_START gives InvalidStart, a length byte above the bound gives
  PayloadTooLarge, a byte other than the stop byte in GET_STOP gives InvalidStop, a
  stop byte when the checksum of the stored frame differs from the stored crc gives
  CrcMismatch, and any byte in a state outside the six gives FrameError. For every call
  that returns: if the hook was not called, the error field is unchanged; if it was
  called, it was called once with the error now stored, which is one of these five,
  the state machine is in WAIT_START, and a frame whose crc byte passes the integrity
  check, fed next, is accepted on its last byte.\<close>

theorem C7_rx_errors_dispatched_and_recovered:
  assumes hook: "OnError (interface p) = zetta_error_manager_fn"
    and gate: "pstate (internal p) \<noteq> ZETTA_STATE_RX_BUSY"
  shows "(rx_frame_state (internal p) = STATE_RX_WAIT_START \<and> b \<noteq> START_BYTE \<longrightarrow>
            zetta_ParseByte p b w =
              Some (Inr (ZETTA_ERROR,
                p\<lparr>internal := (internal p)\<lparr>error := ZETTA_ERROR_INVALID_START,
                     rx_frame_state := STATE_RX_WAIT_START\<rparr>\<rparr>,
                w\<lparr>raised := raised w @ [ZETTA_ERROR_INVALID_START]\<rparr>))) \<and>
         (rx_frame_state (internal p) = STATE_RX_GET_LEN \<and> unat b > MAX_PAYLOAD_SIZE \<longrightarrow>
            zetta_ParseByte p b w =
              Some (Inr (ZETTA_ERROR,
                p\<lparr>internal := (internal p)\<lparr>error := ZETTA_ERROR_PAYLOAD_TOO_LARGE,
                     rx_frame_state := STATE_RX_WAIT_START\<rparr>\<rparr>,
                w\<lparr>raised := raised w @ [ZETTA_ERROR_PAYLOAD_TOO_LARGE]\<rparr>))) \<and>
         (rx_frame_state (internal p) = STATE_RX_GET_STOP \<and> b \<noteq> STOP_BYTE \<longrightarrow>
            zetta_ParseByte p b w =
              Some (Inr (ZETTA_ERROR,
                p\<lparr>internal := (internal p)\<lparr>error := ZETTA_ERROR_INVALID_STOP,
                     rx_frame_state := STATE_RX_WAIT_START\<rparr>\<rparr>,
                w\<lparr>raised := raised w @ [ZETTA_ERROR_INVALID_STOP]\<rparr>))) \<and>
         (rx_frame_state (internal p) = STATE_RX_GET_STOP \<and>
          unat (len (frame (internal p))) \<le> length (payload (frame (internal p))) \<and>
          computeCRC (interface p) = ComputeCRC_fn g \<and>
          g (type (frame (internal p)) # len (frame (internal p)) #
               take (unat (len (frame (internal p)))) (payload (frame (internal p))))
            \<noteq> ucast (crc (frame (internal p))) \<longrightarrow>
            zetta_ParseByte p STOP_BYTE w =
              Some (Inr (ZETTA_ERROR,
                p\<lparr>internal := (internal p)\<lparr>
                     frame := (frame (internal p))\<lparr>stop := STOP_BYTE\<rparr>,
                     error := ZETTA_ERROR_CRC_MISMATCH,
                     rx_frame_state := STATE_RX_WAIT_START\<rparr>\<rparr>,
                w\<lparr>dbg_crc_val :=
                     g (type (frame (internal p)) # len (frame (internal p)) #
                        take (unat (len (frame (internal p)))) (payload (frame (internal p)))),
                  raised := raised w @ [ZETTA_ERROR_CRC_MISMATCH]\<rparr>))) \<and>
         (rx_frame_state (internal p) \<notin> {STATE_RX_WAIT_START, STATE_RX_GET_TYPE,
              STATE_RX_GET_LEN, STATE_RX_GET_PAYLOAD, STATE_RX_GET_CRC, STATE_RX_GET_STOP} \<longrightarrow>
            zetta_ParseByte p b w =
              Some (Inr (ZETTA_ERROR,
                p\<lparr>internal := (internal p)\<lparr>error := ZETTA_FRAME_ERROR,
                     rx_frame_state := STATE_RX_WAIT_START\<rparr>\<rparr>,
                w\<lparr>raised := raised w @ [ZETTA_FRAME_ERROR]\<rparr>))) \<and>
         (zetta_ParseByte p b w = Some (Inr (r, p', w')) \<longrightarrow>
            (raised w' = raised w \<longrightarrow> error (internal p') = error (internal p)) \<and>
            (rx_frame_state (internal p) = STATE_RX_GET_STOP \<and> b = STOP_BYTE \<and> r \<noteq> ZETTA_OK \<longrightarrow>
               raised w' = raised w @ [ZETTA_ERROR_CRC_MISMATCH]) \<and>
            (raised w' \<noteq> raised w \<longrightarrow>
               raised w' = raised w @ [error (internal p')] \<and>
               error (internal p') \<in> {ZETTA_ERROR_INVALID_START, ZETTA_ERROR_PAYLOAD_TOO_LARGE,
                 ZETTA_ERROR_CRC_MISMATCH, ZETTA_ERROR_INVALID_STOP, ZETTA_FRAME_ERROR} \<and>
               r = ZETTA_ERROR \<and>
               rx_frame_state (internal p') = STATE_RX_WAIT_START \<and>
               (computeCRC (interface p) = ComputeCRC_fn g \<and>
                length (payload (frame (internal p))) = MAX_PAYLOAD_SIZE \<and>
                length pl \<le> MAX_PAYLOAD_SIZE \<and>
                g (ty # of_nat (length pl) # pl) = ucast c \<longrightarrow>
                  feed p' w' (wire_frame ty pl c) =
                    Some (Inr (replicate (length pl + 4) ZETTA_ERROR @ [ZETTA_OK],
                               received p' ty pl c, w'\<lparr>dbg_crc_val := ucast c\<rparr>)))))"
proof -
  have k1: "rx_frame_state (internal p) = STATE_RX_WAIT_START \<and> b \<noteq> START_BYTE \<longrightarrow>
            zetta_ParseByte p b w =
              Some (Inr (ZETTA_ERROR,
                p\<lparr>internal := (internal p)\<lparr>error := ZETTA_ERROR_INVALID_START,
                     rx_frame_state := STATE_RX_WAIT_START\<rparr>\<rparr>,
                w\<lparr>raised := raised w @ [ZETTA_ERROR_INVALID_START]\<rparr>))"
    using hook gate by (simp add: zetta_ParseByte_free body_WAIT_START_other)
  have k2: "rx_frame_state (internal p) = STATE_RX_GET_LEN \<and> unat b > MAX_PAYLOAD_SIZE \<longrightarrow>
            zetta_ParseByte p b w =
              Some (Inr (ZETTA_ERROR,
                p\<lparr>internal := (internal p)\<lparr>error := ZETTA_ERROR_PAYLOAD_TOO_LARGE,
                     rx_frame_state := STATE_RX_WAIT_START\<rparr>\<rparr>,
                w\<lparr>raised := raised w @ [ZETTA_ERROR_PAYLOAD_TOO_LARGE]\<rparr>))"
    using hook gate by (simp add: zetta_ParseByte_free body_GET_LEN_too_large)
  have k3: "rx_frame_state (internal p) = STATE_RX_GET_STOP \<and> b \<noteq> STOP_BYTE \<longrightarrow>
            zetta_ParseByte p b w =
              Some (Inr (ZETTA_ERROR,
                p\<lparr>internal := (internal p)\<lparr>error := ZETTA_ERROR_INVALID_STOP,
                     rx_frame_state := STATE_RX_WAIT_START\<rparr>\<rparr>,
                w\<lparr>raised := raised w @ [ZETTA_ERROR_INVALID_STOP]\<rparr>))"
    using hook gate by (simp add: zetta_ParseByte_free body_GET_STOP_other)
  have k4: "rx_frame_state (internal p) = STATE_RX_GET_STOP \<and>
          unat (len (frame (internal p))) \<le> length (payload (frame (internal p))) \<and>
          computeCRC (interface p) = ComputeCRC_fn g \<and>
          g (type (frame (internal p)) # len (frame (internal p)) #
               take (unat (len (frame (internal p)))) (payload (frame (internal p))))
            \<noteq> ucast (crc (frame (internal p))) \<longrightarrow>
            zetta_ParseByte p STOP_BYTE w =
              Some (Inr (ZETTA_ERROR,
                p\<lparr>internal := (internal p)\<lparr>
                     frame := (frame (internal p))\<lparr>stop := STOP_BYTE\<rparr>,
                     error := ZETTA_ERROR_CRC_MISMATCH,
                     rx_frame_state := STATE_RX_WAIT_START\<rparr>\<rparr>,
                w\<lparr>dbg_crc_val :=
                     g (type (frame (internal p)) # len (frame (internal p)) #
                        take (unat (len (frame (internal p)))) (payload (frame (internal p)))),
                  raised := raised w @ [ZETTA_ERROR_CRC_MISMATCH]\<rparr>))"
    using hook gate by (simp add: zetta_ParseByte_free body_GET_STOP_mismatch)
  have k5: "rx_frame_state (internal p) \<notin> {STATE_RX_WAIT_START, STATE_RX_GET_TYPE,
              STATE_RX_GET_LEN, STATE_RX_GET_PAYLOAD, STATE_RX_GET_CRC, STATE_RX_GET_STOP} \<longrightarrow>
            zetta_ParseByte p b w =
              Some (Inr (ZETTA_ERROR,
                p\<lparr>internal := (internal p)\<lparr>error := ZETTA_FRAME_ERROR,
                     rx_frame_state := STATE_RX_WAIT_START\<rparr>\<rparr>,
                w\<lparr>raised := raised w @ [ZETTA_FRAME_ERROR]\<rparr>))"
    using hook gate by (simp add: zetta_ParseByte_free body_invalid_state)
  have run: "(raised w' = raised w \<longrightarrow> error (internal p') = error (internal p)) \<and>
            (rx_frame_state (internal p) = STATE_RX_GET_STOP \<and> b = STOP_BYTE \<and> r \<noteq> ZETTA_OK \<longrightarrow>
               raised w' = raised w @ [ZETTA_ERROR_CRC_MISMATCH]) \<and>
            (raised w' \<noteq> raised w \<longrightarrow>
               raised w' = raised w @ [error (internal p')] \<and>
               error (internal p') \<in> {ZETTA_ERROR_INVALID_START, ZETTA_ERROR_PAYLOAD_TOO_LARGE,
                 ZETTA_ERROR_CRC_MISMATCH, ZETTA_ERROR_INVALID_STOP, ZETTA_FRAME_ERROR} \<and>
               r = ZETTA_ERROR \<and>
               rx_frame_state (internal p') = STATE_RX_WAIT_START \<and>
               (computeCRC (interface p) = ComputeCRC_fn g \<and>
                length (payload (frame (internal p))) = MAX_PAYLOAD_SIZE \<and>
                length pl \<le> MAX_PAYLOAD_SIZE \<and>
                g (ty # of_nat (length pl) # pl) = ucast c \<longrightarrow>
                  feed p' w' (wire_frame ty pl c) =
                    Some (Inr (replicate (length pl + 4) ZETTA_ERROR @ [ZETTA_OK],
                               received p' ty pl c, w'\<lparr>dbg_crc_val := ucast c\<rparr>))))"
    if "zetta_ParseByte p b w = Some (Inr (r, p', w'))"
    using rx_run_error_facts [OF hook that, of g pl ty c] by blast
  show ?thesis using k1 k2 k3 k4 k5 run by blast
qed

text \<open>C7 at concrete receivers: a stray byte at \<open>ex_sum0\<close> (InvalidStart), the length
  byte 26 at \<open>ex_get_len\<close> (PayloadTooLarge), the byte 0 at \<open>ex_sum_stop\<close>
  (InvalidStop), the stop byte at \<open>ex_sum_stop\<close> (CrcMismatch), any byte at
  \<open>ex_bad_state\<close> (FrameError); and after the CrcMismatch the frame
  AA 01 01 05 07 BC is accepted.\<close>

theorem C7_witness:
  "OnError (interface ex_sum0) = zetta_error_manager_fn \<and>
   pstate (internal ex_sum0) \<noteq> ZETTA_STATE_RX_BUSY \<and>
   zetta_ParseByte ex_sum0 0 ex_world =
     Some (Inr (ZETTA_ERROR, ex_after_stray,
                ex_world\<lparr>raised := [ZETTA_ERROR_INVALID_START]\<rparr>)) \<and>
   zetta_ParseByte ex_get_len 26 ex_world =
     Some (Inr (ZETTA_ERROR,
                ex_get_len\<lparr>internal := (internal ex_get_len)\<lparr>error := ZETTA_ERROR_PAYLOAD_TOO_LARGE,
                   rx_frame_state := STATE_RX_WAIT_START\<rparr>\<rparr>,
                ex_world\<lparr>raised := [ZETTA_ERROR_PAYLOAD_TOO_LARGE]\<rparr>)) \<and>
   zetta_ParseByte ex_sum_stop 0 ex_world =
     Some (Inr (ZETTA_ERROR,
                ex_sum_stop\<lparr>internal := (internal ex_sum_stop)\<lparr>error := ZETTA_ERROR_INVALID_STOP,
                   rx_frame_state := STATE_RX_WAIT_START\<rparr>\<rparr>,
                ex_world\<lparr>raised := [ZETTA_ERROR_INVALID_STOP]\<rparr>)) \<and>
   zetta_ParseByte ex_sum_stop STOP_BYTE ex_world =
     Some (Inr (ZETTA_ERROR, ex_sum_rejected,
                ex_world\<lparr>dbg_crc_val := 12, raised := [ZETTA_ERROR_CRC_MISMATCH]\<rparr>)) \<and>
   zetta_ParseByte ex_bad_state 0 ex_world =
     Some (Inr (ZETTA_ERROR,
                ex_bad_state\<lparr>internal := (internal ex_bad_state)\<lparr>error := ZETTA_FRAME_ERROR,
                   rx_frame_state := STATE_RX_WAIT_START\<rparr>\<rparr>,
                ex_world\<lparr>raised := [ZETTA_FRAME_ERROR]\<rparr>)) \<and>
   feed ex_sum_rejected (ex_world\<lparr>dbg_crc_val := 12, raised := [ZETTA_ERROR_CRC_MISMATCH]\<rparr>)
        (wire_frame 1 [5] 7) =
     Some (Inr ([ZETTA_ERROR, ZETTA_ERROR, ZETTA_ERROR, ZETTA_ERROR, ZETTA_ERROR, ZETTA_OK],
                received ex_sum_rejected 1 [5] 7,
                ex_world\<lparr>dbg_crc_val := 7, raised := [ZETTA_ERROR_CRC_MISMATCH]\<rparr>))"
proof -
  have h0: "OnError (interface ex_sum0) = zetta_error_manager_fn"
    and g0: "pstate (internal ex_sum0) \<noteq> ZETTA_STATE_RX_BUSY"
    by (simp_all add: ex_sum0_def zetta_init_eq)
  have h1: "OnError (interface ex_get_len) = zetta_error_manager_fn"
    and g1: "pstate (internal ex_get_len) \<noteq> ZETTA_STATE_RX_BUSY"
    by (simp_all add: ex_get_len_def ex_sum0_def zetta_init_eq)
  have h2: "OnError (interface ex_sum_stop) = zetta_error_manager_fn"
    and g2: "pstate (internal ex_sum_stop) \<noteq> ZETTA_STATE_RX_BUSY"
    by (simp_all add: ex_sum_stop_def ex_sum0_def zetta_init_eq)
  have h3: "OnError (interface ex_bad_state) = zetta_error_manager_fn"
    and g3: "pstate (internal ex_bad_state) \<noteq> ZETTA_STATE_RX_BUSY"
    by (simp_all add: ex_bad_state_def ex_sum0_def zetta_init_eq)
  let ?w4 = "ex_world\<lparr>dbg_crc_val := 12, raised := [ZETTA_ERROR_CRC_MISMATCH]\<rparr>"
  have k1: "zetta_ParseByte ex_sum0 0 ex_world =
     Some (Inr (ZETTA_ERROR, ex_after_stray,
                ex_world\<lparr>raised := [ZETTA_ERROR_INVALID_START]\<rparr>))"
    using C7_rx_errors_dispatched_and_recovered [OF h0 g0, where b = 0 and w = ex_world
        and g = crc_sum and r = ZETTA_ERROR and p' = ex_sum0 and w' = ex_world
        and ty = 0 and pl = "[]" and c = 0]
    by (simp add: ex_sum0_def zetta_init_eq ex_after_stray_def ex_world_def rx_state_defs
        START_BYTE_def)
  have k2: "zetta_ParseByte ex_get_len 26 ex_world =
     Some (Inr (ZETTA_ERROR,
                ex_get_len\<lparr>internal := (internal ex_get_len)\<lparr>error := ZETTA_ERROR_PAYLOAD_TOO_LARGE,
                   rx_frame_state := STATE_RX_WAIT_START\<rparr>\<rparr>,
                ex_world\<lparr>raised := [ZETTA_ERROR_PAYLOAD_TOO_LARGE]\<rparr>))"
    using C7_rx_errors_dispatched_and_recovered [OF h1 g1, where b = 26 and w = ex_world
        and g = crc_sum and r = ZETTA_ERROR and p' = ex_sum0 and w' = ex_world
        and ty = 0 and pl = "[]" and c = 0]
    by (simp add: ex_get_len_def ex_world_def rx_state_defs MAX_PAYLOAD_SIZE_def)
  have k3: "zetta_ParseByte ex_sum_stop 0 ex_world =
     Some (Inr (ZETTA_ERROR,
                ex_sum_stop\<lparr>internal := (internal ex_sum_stop)\<lparr>error := ZETTA_ERROR_INVALID_STOP,
                   rx_frame_state := STATE_RX_WAIT_START\<rparr>\<rparr>,
                ex_world\<lparr>raised := [ZETTA_ERROR_INVALID_STOP]\<rparr>))"
    using C7_rx_errors_dispatched_and_recovered [OF h2 g2, where b = 0 and w = ex_world
        and g = crc_sum and r = ZETTA_ERROR and p' = ex_sum0 and w' = ex_world
        and ty = 0 and pl = "[]" and c = 0]
    by (simp add: ex_sum_stop_def ex_world_def rx_state_defs STOP_BYTE_def)
  have k5: "zetta_ParseByte ex_bad_state 0 ex_world =
     Some (Inr (ZETTA_ERROR,
                ex_bad_state\<lparr>internal := (internal ex_bad_state)\<lparr>error := ZETTA_FRAME_ERROR,
                   rx_frame_state := STATE_RX_WAIT_START\<rparr>\<rparr>,
                ex_world\<lparr>raised := [ZETTA_FRAME_ERROR]\<rparr>))"
    using C7_rx_errors_dispatched_and_recovered [OF h3 g3, where b = 0 and w = ex_world
        and g = crc_sum and r = ZETTA_ERROR and p' = ex_sum0 and w' = ex_world
        and ty = 0 and pl = "[]" and c = 0]
    by (simp add: ex_bad_state_def ex_world_def rx_state_defs)
  note t4 = C7_rx_errors_dispatched_and_recovered [OF h2 g2, where b = STOP_BYTE and w = ex_world
        and g = crc_sum and r = ZETTA_ERROR and p' = ex_sum_rejected and w' = ?w4
        and ty = 1 and pl = "[5]" and c = 7]
  have pre4: "rx_frame_state (internal ex_sum_stop) = STATE_RX_GET_STOP \<and>
          unat (len (frame (internal ex_sum_stop))) \<le> length (payload (frame (internal ex_sum_stop))) \<and>
          computeCRC (interface ex_sum_stop) = ComputeCRC_fn crc_sum \<and>
          crc_sum (type (frame (internal ex_sum_stop)) # len (frame (internal ex_sum_stop)) #
               take (unat (len (frame (internal ex_sum_stop)))) (payload (frame (internal ex_sum_stop))))
            \<noteq> ucast (crc (frame (internal ex_sum_stop)))"
    by (simp add: ex_sum_stop_def ex_sum0_def zetta_init_eq ex_iface_sum_def crc_sum_def)
  have k4: "zetta_ParseByte ex_sum_stop STOP_BYTE ex_world = Some (Inr (ZETTA_ERROR, ex_sum_rejected, ?w4))"
    using t4 pre4
    by (simp add: ex_sum_stop_def ex_sum_rejected_def ex_world_def crc_sum_def STOP_BYTE_def)
  have pre6: "raised ?w4 \<noteq> raised ex_world \<and>
      computeCRC (interface ex_sum_stop) = ComputeCRC_fn crc_sum \<and>
      length (payload (frame (internal ex_sum_stop))) = MAX_PAYLOAD_SIZE \<and>
      length [5 :: uint8_t] \<le> MAX_PAYLOAD_SIZE \<and>
      crc_sum (1 # of_nat (length [5 :: uint8_t]) # [5]) = ucast (7 :: uint8_t)"
    by (simp add: ex_sum_stop_def ex_sum0_def zetta_init_eq ex_iface_sum_def crc_sum_def
        ex_world_def MAX_PAYLOAD_SIZE_def)
  have k6: "feed ex_sum_rejected ?w4 (wire_frame 1 [5] 7) =
     Some (Inr ([ZETTA_ERROR, ZETTA_ERROR, ZETTA_ERROR, ZETTA_ERROR, ZETTA_ERROR, ZETTA_OK],
                received ex_sum_rejected 1 [5] 7,
                ex_world\<lparr>dbg_crc_val := 7, raised := [ZETTA_ERROR_CRC_MISMATCH]\<rparr>))"
    using t4 k4 pre6 by (simp add: eval_list)
  show ?thesis using h0 g0 k1 k2 k3 k4 k5 k6 by simp
qed

subsection \<open>C8: the GET\_LEN transition\<close>

text \<open>C8: in state GET_LEN, with the gate not busy and the library's error hook
  installed, a byte of at most \<open>MAX_PAYLOAD_SIZE\<close> is recorded as the frame length and
  the state machine moves to GET_CRC when the byte is 0 and to GET_PAYLOAD otherwise; a
  larger byte is not recorded, PayloadTooLarge is stored and handed to the hook, and the
  state machine is in WAIT_START after the call.\<close>

theorem C8_GET_LEN:
  assumes "rx_frame_state (internal p) = STATE_RX_GET_LEN"
    and "pstate (internal p) \<noteq> ZETTA_STATE_RX_BUSY"
    and "OnError (interface p) = zetta_error_manager_fn"
  shows "(unat b \<le> MAX_PAYLOAD_SIZE \<longrightarrow>
            zetta_ParseByte p b w =
              Some (Inr (ZETTA_ERROR,
                p\<lparr>internal := (internal p)\<lparr>frame := (frame (internal p))\<lparr>len := b\<rparr>,
                     rx_frame_state :=
                       (if b = 0 then STATE_RX_GET_CRC else STATE_RX_GET_PAYLOAD)\<rparr>\<rparr>, w))) \<and>
         (unat b > MAX_PAYLOAD_SIZE \<longrightarrow>
            zetta_ParseByte p b w =
              Some (Inr (ZETTA_ERROR,
                p\<lparr>internal := (internal p)\<lparr>error := ZETTA_ERROR_PAYLOAD_TOO_LARGE,
                     rx_frame_state := STATE_RX_WAIT_START\<rparr>\<rparr>,
                w\<lparr>raised := raised w @ [ZETTA_ERROR_PAYLOAD_TOO_LARGE]\<rparr>)))"
  using assms
  by (simp add: zetta_ParseByte_free body_GET_LEN_ok body_GET_LEN_too_large)

text \<open>C8 at \<open>ex_get_len\<close> with the length bytes 2, 0 and 200.\<close>

theorem C8_witness:
  "rx_frame_state (internal ex_get_len) = STATE_RX_GET_LEN \<and>
   pstate (internal ex_get_len) \<noteq> ZETTA_STATE_RX_BUSY \<and>
   OnError (interface ex_get_len) = zetta_error_manager_fn \<and>
   unat (2 :: uint8_t) \<le> MAX_PAYLOAD_SIZE \<and>
   zetta_ParseByte ex_get_len 2 ex_world =
     Some (Inr (ZETTA_ERROR,
       ex_get_len\<lparr>internal := (internal ex_get_len)\<lparr>
          frame := (frame (internal ex_get_len))\<lparr>len := 2\<rparr>,
          rx_frame_state := STATE_RX_GET_PAYLOAD\<rparr>\<rparr>, ex_world)) \<and>
   unat (0 :: uint8_t) \<le> MAX_PAYLOAD_SIZE \<and>
   zetta_ParseByte ex_get_len 0 ex_world =
     Some (Inr (ZETTA_ERROR,
       ex_get_len\<lparr>internal := (internal ex_get_len)\<lparr>
          frame := (frame (internal ex_get_len))\<lparr>len := 0\<rparr>,
          rx_frame_state := STATE_RX_GET_CRC\<rparr>\<rparr>, ex_world)) \<and>
   unat (200 :: uint8_t) > MAX_PAYLOAD_SIZE \<and>
   zetta_ParseByte ex_get_len 200 ex_world =
     Some (Inr (ZETTA_ERROR,
       ex_get_len\<lparr>internal := (internal ex_get_len)\<lparr>error := ZETTA_ERROR_PAYLOAD_TOO_LARGE,
          rx_frame_state := STATE_RX_WAIT_START\<rparr>\<rparr>,
       ex_world\<lparr>raised := raised ex_world @ [ZETTA_ERROR_PAYLOAD_TOO_LARGE]\<rparr>))"
proof -
  have a: "rx_frame_state (internal ex_get_len) = STATE_RX_GET_LEN"
    by (simp add: ex_get_len_def)
  have b: "pstate (internal ex_get_len) \<noteq> ZETTA_STATE_RX_BUSY"
    by (simp add: ex_get_len_def ex_sum0_def zetta_init_eq)
  have c: "OnError (interface ex_get_len) = zetta_error_manager_fn"
    by (simp add: ex_get_len_def ex_sum0_def zetta_init_eq)
  show ?thesis
    using C8_GET_LEN [OF a b c, of 2 ex_world] C8_GET_LEN [OF a b c, of 0 ex_world]
      C8_GET_LEN [OF a b c, of 200 ex_world] a b c
    by (simp add: MAX_PAYLOAD_SIZE_def)
qed

subsection \<open>C9: one field for both gates\<close>

text \<open>C9: after a call of \<open>zetta_send\<close> that returns \<open>ZETTA_OK\<close> the gate field
  \<open>pstate\<close> is \<open>ZETTA_STATE_TX_BUSY\<close>, whatever it recorded before, and a further send
  would wait; the receive-complete callback then sets the same field to
  \<open>ZETTA_STATE_RX_READY\<close>, so the transmit-busy indication is gone and a further send
  no longer waits.\<close>

theorem C9_shared_gate:
  assumes "zetta_send packet ty pData ln w = Some (Inr (ZETTA_OK, packet', w'))"
  shows "pstate (internal packet') = ZETTA_STATE_TX_BUSY \<and>
         zetta_send packet' ty2 pData2 ln2 w2 = None \<and>
         pstate (internal (zetta_recieve_cplt_clb packet')) = ZETTA_STATE_RX_READY \<and>
         zetta_send (zetta_recieve_cplt_clb packet') ty2 pData2 ln2 w2 \<noteq> None"
proof -
  have "pstate (internal packet) \<noteq> ZETTA_STATE_TX_BUSY"
    using assms zetta_send_hangs [of packet ty pData ln w] by auto
  then have "zetta_send_body packet ty pData ln w = Inr (ZETTA_OK, packet', w')"
    using assms by (simp add: zetta_send_free)
  then have busy: "pstate (internal packet') = ZETTA_STATE_TX_BUSY"
    by (rule zetta_send_body_OK_pstate)
  have ready: "pstate (internal (zetta_recieve_cplt_clb packet')) = ZETTA_STATE_RX_READY"
    by (simp add: zetta_recieve_cplt_clb_def)
  then have "zetta_send (zetta_recieve_cplt_clb packet') ty2 pData2 ln2 w2 \<noteq> None"
    by (simp add: zetta_send_free)
  with busy ready show ?thesis
    by (simp add: zetta_send_hangs)
qed

text \<open>C9 at the initialised instance \<open>ex_sum0\<close>, whose gate reads
  \<open>ZETTA_STATE_RX_READY\<close> before the send.\<close>

theorem C9_witness:
  "zetta_send ex_sum0 1 [1, 2] 2 ex_world = Some (Inr (ZETTA_OK, ex_tx1, ex_world1)) \<and>
   pstate (internal ex_sum0) = ZETTA_STATE_RX_READY \<and>
   pstate (internal ex_tx1) = ZETTA_STATE_TX_BUSY \<and>
   zetta_send ex_tx1 1 [3] 1 ex_world1 = None \<and>
   pstate (internal (zetta_recieve_cplt_clb ex_tx1)) = ZETTA_STATE_RX_READY \<and>
   zetta_send (zetta_recieve_cplt_clb ex_tx1) 1 [3] 1 ex_world1 \<noteq> None"
  using C9_shared_gate [OF ex_send, of 1 "[3]" 1 ex_world1] ex_send
  by (simp add: ex_sum0_def zetta_init_eq)

subsection \<open>C10: the payload-ready flag\<close>

text \<open>C10, as stated, says that after a later receive error the getters still return
  the previously completed frame's type and payload. The receiver \<open>ex_sum0\<close> accepts
  the frame with type 1 and payload 5; the next frame, type 2 with payload 9, is
  rejected with CrcMismatch. The flag is still set, and the getters now return type 2
  and payload 9: the bytes of the rejected frame were written into the one frame
  buffer as they arrived.\<close>

theorem C10_counterexample_rejected_frame_overwrites:
  "feed ex_sum0 ex_world [0xAA, 1, 1, 5, 7, 0xBC] =
     Some (Inr ([ZETTA_ERROR, ZETTA_ERROR, ZETTA_ERROR, ZETTA_ERROR, ZETTA_ERROR, ZETTA_OK],
                ex_rx1, ex_world\<lparr>dbg_crc_val := 7\<rparr>)) \<and>
   Zetta_GetType ex_rx1 = 1 \<and>
   Zetta_GetPayload ex_rx1 [0] = Inr [5] \<and>
   feed ex_rx1 (ex_world\<lparr>dbg_crc_val := 7\<rparr>) [0xAA, 2, 1, 9, 0, 0xBC] =
     Some (Inr ([ZETTA_ERROR, ZETTA_ERROR, ZETTA_ERROR, ZETTA_ERROR, ZETTA_ERROR, ZETTA_ERROR],
                ex_rx2,
                ex_world\<lparr>dbg_crc_val := 12, raised := [ZETTA_ERROR_CRC_MISMATCH]\<rparr>)) \<and>
   payload_ready (internal ex_rx2) = 1 \<and>
   Zetta_GetType ex_rx2 = 2 \<and>
   Zetta_GetPayload ex_rx2 [0] = Inr [9] \<and>
   Zetta_GetType ex_rx2 \<noteq> Zetta_GetType ex_rx1 \<and>
   Zetta_GetPayload ex_rx2 [0] \<noteq> Zetta_GetPayload ex_rx1 [0]"
  using ex_frame1 ex_frame2
  by (simp add: Zetta_GetType_def Zetta_GetPayload_def memcpy_def ex_rx1_def ex_rx2_def)

text \<open>C10, amended: the payload-ready flag latches. \<open>zetta_ParseByte\<close> sets it to 1
  on the call that returns \<open>ZETTA_OK\<close> and leaves it as it was on every other call;
  \<open>zetta_send\<close> and the two completion callbacks leave it as it was, so no error
  clears it. The call that detects a receive error changes none of type, length and
  payload, so the getters return right after it what they returned right before it.
  In every instance reached from \<open>zetta_init\<close> by sends, byte feeds and completion
  callbacks in any order, as long as no byte feed has returned \<open>ZETTA_OK\<close>, the flag is
  0, \<open>Zetta_GetPayload\<close> leaves the destination unchanged and \<open>Zetta_GetType\<close>
  returns \<open>MSG_ACK\<close>, which is 0, whatever the frame buffer holds.\<close>

theorem C10_payload_ready_latches:
  "(OnError (interface p) = zetta_error_manager_fn \<and>
    zetta_ParseByte p b w = Some (Inr (r, p', w')) \<longrightarrow>
      (r = ZETTA_OK \<longrightarrow> payload_ready (internal p') = 1) \<and>
      (r \<noteq> ZETTA_OK \<longrightarrow> payload_ready (internal p') = payload_ready (internal p)) \<and>
      (raised w' \<noteq> raised w \<longrightarrow>
         r \<noteq> ZETTA_OK \<and> Zetta_GetType p' = Zetta_GetType p \<and>
         Zetta_GetPayload p' dest = Zetta_GetPayload p dest)) \<and>
   (OnError (interface p) = zetta_error_manager_fn \<and>
    zetta_send p ty pData ln ws = Some (Inr (r2, p2, w2)) \<longrightarrow>
      payload_ready (internal p2) = payload_ready (internal p)) \<and>
   payload_ready (internal (zetta_recieve_cplt_clb p)) = payload_ready (internal p) \<and>
   payload_ready (internal (zetta_transmit_cplt_clb p)) = payload_ready (internal p) \<and>
   (feed (zetta_init q iface) w0 bs = Some (Inr (rs, p3, w3)) \<and> ZETTA_OK \<notin> set rs \<longrightarrow>
      payload_ready (internal p3) = 0 \<and> Zetta_GetType p3 = MSG_ACK \<and>
      Zetta_GetPayload p3 dest = Inr dest) \<and>
   (no_frame_completed p4 \<longrightarrow>
      payload_ready (internal p4) = 0 \<and> Zetta_GetType p4 = MSG_ACK \<and>
      Zetta_GetPayload p4 dest = Inr dest) \<and>
   MSG_ACK = 0"
proof -
  note old = payload_ready_step_facts [of p b w r p' w' dest ty pData ln ws r2 p2 w2
      q iface w0 bs rs p3 w3]
  have cb: "payload_ready (internal (zetta_recieve_cplt_clb p)) = payload_ready (internal p)"
    "payload_ready (internal (zetta_transmit_cplt_clb p)) = payload_ready (internal p)"
    by (simp_all add: zetta_recieve_cplt_clb_def zetta_transmit_cplt_clb_def)
  have fresh: "payload_ready (internal p4) = 0 \<and> Zetta_GetType p4 = MSG_ACK \<and>
      Zetta_GetPayload p4 dest = Inr dest" if "no_frame_completed p4"
  proof -
    from that have "payload_ready (internal p4) = 0"
      by (rule no_frame_completed_payload_ready)
    then show ?thesis by (simp add: Zetta_GetType_def Zetta_GetPayload_def)
  qed
  show ?thesis using old cb fresh by blast
qed

text \<open>C10, amended, at the receiver \<open>ex_rx1\<close> that holds a completed frame (a stray
  byte and a failed send leave flag and getters as they were), at a fresh instance fed
  one stray byte, at \<open>ex_tx1\<close> whose frame buffer holds the sent type 1 and payload
  1, 2, and at \<open>ex_sum_rejected\<close> whose frame buffer holds the rejected type 2 and
  payload 9: no frame has completed in the last three, and the getters answer
  \<open>MSG_ACK\<close> and leave the destination unchanged.\<close>

theorem C10_witness:
  "OnError (interface ex_rx1) = zetta_error_manager_fn \<and>
   payload_ready (internal ex_rx1) = 1 \<and>
   zetta_ParseByte ex_rx1 0 (ex_world\<lparr>dbg_crc_val := 7\<rparr>) =
     Some (Inr (ZETTA_ERROR,
                ex_rx1\<lparr>internal := (internal ex_rx1)\<lparr>error := ZETTA_ERROR_INVALID_START\<rparr>\<rparr>,
                ex_world\<lparr>dbg_crc_val := 7, raised := [ZETTA_ERROR_INVALID_START]\<rparr>)) \<and>
   payload_ready (internal
     (ex_rx1\<lparr>internal := (internal ex_rx1)\<lparr>error := ZETTA_ERROR_INVALID_START\<rparr>\<rparr>)) = 1 \<and>
   Zetta_GetType (ex_rx1\<lparr>internal := (internal ex_rx1)\<lparr>error := ZETTA_ERROR_INVALID_START\<rparr>\<rparr>)
     = Zetta_GetType ex_rx1 \<and>
   Zetta_GetPayload (ex_rx1\<lparr>internal := (internal ex_rx1)\<lparr>error := ZETTA_ERROR_INVALID_START\<rparr>\<rparr>) [0]
     = Zetta_GetPayload ex_rx1 [0] \<and>
   zetta_send ex_rx1 1 [] 26 ex_world =
     Some (Inr (ZETTA_ERROR_PAYLOAD_TOO_LARGE, ex_rx1,
                ex_world\<lparr>raised := [ZETTA_ERROR_PAYLOAD_TOO_LARGE]\<rparr>)) \<and>
   feed (zetta_init zero_Zetta ex_iface_sum) ex_world [0] =
     Some (Inr ([ZETTA_ERROR], ex_after_stray, ex_world\<lparr>raised := [ZETTA_ERROR_INVALID_START]\<rparr>)) \<and>
   ZETTA_OK \<notin> set [ZETTA_ERROR] \<and>
   payload_ready (internal ex_after_stray) = 0 \<and>
   Zetta_GetType ex_after_stray = MSG_ACK \<and>
   Zetta_GetPayload ex_after_stray [0] = Inr [0] \<and>
   no_frame_completed ex_tx1 \<and>
   type (frame (internal ex_tx1)) = 1 \<and>
   take 2 (payload (frame (internal ex_tx1))) = [1, 2] \<and>
   Zetta_GetType ex_tx1 = MSG_ACK \<and>
   Zetta_GetPayload ex_tx1 [0, 0] = Inr [0, 0] \<and>
   no_frame_completed ex_sum_rejected \<and>
   type (frame (internal ex_sum_rejected)) = 2 \<and>
   take 1 (payload (frame (internal ex_sum_rejected))) = [9] \<and>
   Zetta_GetType ex_sum_rejected = MSG_ACK \<and>
   Zetta_GetPayload ex_sum_rejected [0] = Inr [0]"
proof -
  have hook: "OnError (interface ex_rx1) = zetta_error_manager_fn"
    by (simp add: ex_rx1_def ex_sum0_def zetta_init_eq)
  have ready: "payload_ready (internal ex_rx1) = 1"
    by (simp add: ex_rx1_def)
  have ne: "raised (ex_world\<lparr>dbg_crc_val := 7, raised := [ZETTA_ERROR_INVALID_START]\<rparr>)
      \<noteq> raised (ex_world\<lparr>dbg_crc_val := 7\<rparr>)"
    by (simp add: ex_world_def)
  have frames: "type (frame (internal ex_tx1)) = 1"
    "take 2 (payload (frame (internal ex_tx1))) = [1, 2]"
    "type (frame (internal ex_sum_rejected)) = 2"
    "take 1 (payload (frame (internal ex_sum_rejected))) = [9]"
    by (simp_all add: ex_tx1_def ex_sum_rejected_def)
  have first: "payload_ready (internal
     (ex_rx1\<lparr>internal := (internal ex_rx1)\<lparr>error := ZETTA_ERROR_INVALID_START\<rparr>\<rparr>)) = 1 \<and>
   Zetta_GetType (ex_rx1\<lparr>internal := (internal ex_rx1)\<lparr>error := ZETTA_ERROR_INVALID_START\<rparr>\<rparr>)
     = Zetta_GetType ex_rx1 \<and>
   Zetta_GetPayload (ex_rx1\<lparr>internal := (internal ex_rx1)\<lparr>error := ZETTA_ERROR_INVALID_START\<rparr>\<rparr>) [0]
     = Zetta_GetPayload ex_rx1 [0] \<and>
   payload_ready (internal ex_after_stray) = 0 \<and>
   Zetta_GetType ex_after_stray = MSG_ACK \<and>
   Zetta_GetPayload ex_after_stray [0] = Inr [0] \<and>
   Zetta_GetType ex_tx1 = MSG_ACK \<and>
   Zetta_GetPayload ex_tx1 [0] = Inr [0]"
    using C10_payload_ready_latches [where p = ex_rx1 and b = 0
        and w = "ex_world\<lparr>dbg_crc_val := 7\<rparr>" and r = ZETTA_ERROR
        and p' = "ex_rx1\<lparr>internal := (internal ex_rx1)\<lparr>error := ZETTA_ERROR_INVALID_START\<rparr>\<rparr>"
        and w' = "ex_world\<lparr>dbg_crc_val := 7, raised := [ZETTA_ERROR_INVALID_START]\<rparr>"
        and dest = "[0]" and ty = 1 and pData = "[]" and ln = 26 and ws = ex_world
        and ?r2.0 = ZETTA_ERROR_PAYLOAD_TOO_LARGE and ?p2.0 = ex_rx1
        and ?w2.0 = "ex_world\<lparr>raised := [ZETTA_ERROR_PAYLOAD_TOO_LARGE]\<rparr>"
        and q = zero_Zetta and iface = ex_iface_sum and ?w0.0 = ex_world and bs = "[0]"
        and rs = "[ZETTA_ERROR]" and ?p3.0 = ex_after_stray
        and ?w3.0 = "ex_world\<lparr>raised := [ZETTA_ERROR_INVALID_START]\<rparr>"
        and ?p4.0 = ex_tx1]
      hook ready ne ex_rx1_stray ex_rx1_send_too_large ex_stray_feed ex_tx1_no_frame
    by simp
  have second: "Zetta_GetType ex_tx1 = MSG_ACK \<and> Zetta_GetPayload ex_tx1 [0, 0] = Inr [0, 0]"
    using C10_payload_ready_latches [where dest = "[0, 0]" and ?p4.0 = ex_tx1] ex_tx1_no_frame
    by simp
  have third: "Zetta_GetType ex_sum_rejected = MSG_ACK \<and>
      Zetta_GetPayload ex_sum_rejected [0] = Inr [0]"
    using C10_payload_ready_latches [where dest = "[0]" and ?p4.0 = ex_sum_rejected]
      ex_sum_rejected_no_frame
    by simp
  show ?thesis
    using first second third hook ready frames ex_rx1_stray ex_rx1_send_too_large ex_stray_feed
      ex_tx1_no_frame ex_sum_rejected_no_frame
    by simp
qed


end
